theory Spec2Isabelle
  imports Complex_Main "HOL-Library.Char_ord" "HOL-Library.List_Lexorder" "HOL-Library.Multiset"
begin

section \<open>Python values used by the scheduling code\<close>

text \<open>
  Exceptions are values: a function of the source that can raise returns \<open>exn + 'a\<close>,
  with \<open>Inl\<close> for the exception raised.
\<close>

datatype exn = ZeroDivisionError | KeyError string | ValueError string | OtherException string

text \<open>\<open>str(e)\<close>, as the planner's error message prints it.\<close>

definition str_exn :: "exn \<Rightarrow> string" where
  "str_exn e =
     (case e of
        ZeroDivisionError \<Rightarrow> ''division by zero''
      | KeyError k \<Rightarrow> [CHR 0x27] @ k @ [CHR 0x27]
      | ValueError m \<Rightarrow> m
      | OtherException m \<Rightarrow> m)"

text \<open>
  A Python \<open>dict\<close> keeps its keys in insertion order, and several functions of the source
  iterate over \<open>items()\<close>, so a dict is an association list.  \<open>dict_get\<close> is \<open>d.get(k)\<close>,
  \<open>dict_set\<close> is \<open>d[k] = v\<close>: an existing key keeps its position and gets the new value,
  a new key goes to the end.
\<close>

definition dict_get :: "('k \<times> 'v) list \<Rightarrow> 'k \<Rightarrow> 'v option" where
  "dict_get d k = map_of d k"

definition dict_keys :: "('k \<times> 'v) list \<Rightarrow> 'k list" where
  "dict_keys d = map fst d"

primrec dict_set :: "'k \<Rightarrow> 'v \<Rightarrow> ('k \<times> 'v) list \<Rightarrow> ('k \<times> 'v) list" where
  "dict_set k v [] = [(k, v)]"
| "dict_set k v (p # ps) = (if fst p = k then (k, v) # ps else p # dict_set k v ps)"

text \<open>\<open>d[k].append(x)\<close> for a dict of lists; the source guards it with \<open>k in d\<close>.\<close>

definition dict_append :: "'k \<Rightarrow> 'v \<Rightarrow> ('k \<times> 'v list) list \<Rightarrow> ('k \<times> 'v list) list" where
  "dict_append k x d = map (\<lambda>(k', v). if k' = k then (k', v @ [x]) else (k', v)) d"

text \<open>
  \<open>xs.index(x)\<close>: the first position of \<open>x\<close>.  Where the list does not hold \<open>x\<close> the source
  raises \<open>ValueError\<close>; \<open>list_index\<close> then gives \<open>None\<close> and the caller raises.
\<close>

fun list_index :: "'a list \<Rightarrow> 'a \<Rightarrow> nat option" where
  "list_index [] x = None"
| "list_index (y # ys) x = (if y = x then Some 0 else map_option Suc (list_index ys x))"

text \<open>
  A session is a dict with string keys.  The values that the code stores are strings, and
  Python's \<open>None\<close> for the topic of a review whose session had no topic.  A plan maps day
  labels to session lists.
\<close>

datatype pyval = Str string | NoneVal

text \<open>\<open>str(v)\<close>, as an f-string prints the value.\<close>

definition str_val :: "pyval \<Rightarrow> string" where
  "str_val v = (case v of Str s \<Rightarrow> s | NoneVal \<Rightarrow> ''None'')"

type_synonym session = "(string \<times> pyval) list"
type_synonym plan = "(string \<times> session list) list"

subsection \<open>Clock times: \<open>strptime(s, '%H:%M')\<close>, \<open>timedelta\<close>, \<open>strftime('%H:%M')\<close>\<close>

definition is_digit :: "char \<Rightarrow> bool" where
  "is_digit c = (c \<in> set ''0123456789'')"

definition digit_val :: "char \<Rightarrow> nat" where
  "digit_val c = of_char c - 48"

definition digit_char :: "nat \<Rightarrow> char" where
  "digit_char n = ''0123456789'' ! n"

text \<open>
  The directive \<open>%H\<close> reads one digit, or two digits that form 00..23; \<open>%M\<close> reads one digit,
  or two digits that form 00..59.  The whole string has to be consumed.
\<close>

definition parse_field :: "nat \<Rightarrow> string \<Rightarrow> nat option" where
  "parse_field bound s =
     (case s of
        [a] \<Rightarrow> if is_digit a then Some (digit_val a) else None
      | [a, b] \<Rightarrow>
          if is_digit a \<and> is_digit b \<and> 10 * digit_val a + digit_val b < bound
          then Some (10 * digit_val a + digit_val b) else None
      | _ \<Rightarrow> None)"

definition strptime_HM :: "string \<Rightarrow> (nat \<times> nat) option" where
  "strptime_HM s =
     (case dropWhile (\<lambda>c. c \<noteq> CHR '':'') s of
        [] \<Rightarrow> None
      | _ # m \<Rightarrow>
          (case parse_field 24 (takeWhile (\<lambda>c. c \<noteq> CHR '':'') s) of
             None \<Rightarrow> None
           | Some hh \<Rightarrow>
               (case parse_field 60 m of None \<Rightarrow> None | Some mm \<Rightarrow> Some (hh, mm))))"

text \<open>\<open>str(n)\<close> for a natural number and for an integer, as an f-string prints it.\<close>

fun str_nat :: "nat \<Rightarrow> string" where
  "str_nat n = (if n < 10 then [digit_char n] else str_nat (n div 10) @ [digit_char (n mod 10)])"

declare str_nat.simps [simp del]


definition two_digits :: "nat \<Rightarrow> string" where
  "two_digits n = [digit_char (n div 10), digit_char (n mod 10)]"

definition strftime_HM :: "nat \<Rightarrow> string" where
  "strftime_HM m = two_digits (m div 60) @ '':'' @ two_digits (m mod 60)"

text \<open>
  \<open>_add_minutes_to_time\<close> (the planner's method and the scheduler's static method have the
  same body).  \<open>strptime\<close> yields a time on 1900-01-01, which is day 693595 counted from
  0001-01-01; the sum has to stay within the years 1..9999 (3652059 days), otherwise the
  addition raises \<open>OverflowError\<close>.  On \<open>None\<close>, \<open>strptime\<close> raises \<open>TypeError\<close>.  The bare
  \<open>except\<close> turns every failure into the unchanged argument.
\<close>

definition add_minutes_to_time :: "pyval \<Rightarrow> int \<Rightarrow> pyval" where
  "add_minutes_to_time time_str minutes =
     (case time_str of
        NoneVal \<Rightarrow> NoneVal
      | Str s \<Rightarrow>
          (case strptime_HM s of
             None \<Rightarrow> Str s
           | Some (hh, mm) \<Rightarrow>
               (let total = 693595 * 1440 + int hh * 60 + int mm + minutes
                in if 0 \<le> total \<and> total < 3652059 * 1440
                   then Str (strftime_HM (nat (total mod 1440)))
                   else Str s)))"

subsection \<open>\<open>int\<close> on a string\<close>

text \<open>
  Python's \<open>int(s)\<close> for a string of ASCII characters: white space around the number
  (blank, tab, line feed, vertical tab, form feed, carriage return) is dropped, a sign may
  come first, and the digits may be separated by single underscores; anything else raises
  \<open>ValueError\<close> (\<open>None\<close> here).  Digits outside ASCII, which \<open>int\<close> also reads, and the
  limit that recent versions put on the number of digits are left out.
\<close>

definition is_blank :: "char \<Rightarrow> bool" where
  "is_blank c \<longleftrightarrow> c \<in> set [CHR 0x09, CHR 0x0A, CHR 0x0B, CHR 0x0C, CHR 0x0D, CHR 0x20]"

text \<open>The digits after the first one; \<open>n\<close> is the value read so far.\<close>

fun more_digits :: "nat \<Rightarrow> string \<Rightarrow> nat option" where
  "more_digits n [] = Some n"
| "more_digits n [c] = (if is_digit c then Some (10 * n + digit_val c) else None)"
| "more_digits n (c # d # cs) =
     (if is_digit c then more_digits (10 * n + digit_val c) (d # cs)
      else if c = CHR ''_'' \<and> is_digit d then more_digits (10 * n + digit_val d) cs
      else None)"

definition unsigned_int :: "string \<Rightarrow> nat option" where
  "unsigned_int s =
     (case s of
        [] \<Rightarrow> None
      | c # cs \<Rightarrow> if is_digit c then more_digits (digit_val c) cs else None)"

definition int_of_str :: "string \<Rightarrow> int option" where
  "int_of_str s =
     (case rev (dropWhile is_blank (rev (dropWhile is_blank s))) of
        [] \<Rightarrow> None
      | c # cs \<Rightarrow>
          if c = CHR ''-'' then map_option (\<lambda>n. - int n) (unsigned_int cs)
          else if c = CHR ''+'' then map_option int (unsigned_int cs)
          else map_option int (unsigned_int (c # cs)))"

subsection \<open>Strings\<close>












subsection \<open>Sets of strings\<close>


section \<open>The planner (\<open>agents/planner_agent.py\<close>)\<close>

subsection \<open>Dates\<close>

text \<open>
  A \<open>datetime\<close> is the number of microseconds since 0001-01-01 00:00, the first day of
  Python's calendar, which is a Monday.  \<open>timedelta(days=n)\<close> adds \<open>n\<close> days, the attribute
  \<open>.days\<close> of a difference is its floor in days, and \<open>strftime('%A')\<close> is the English
  weekday name (the C locale).  The library's range check (years 1..9999) is not modelled:
  \<open>start_date\<close> is the current time and at most 13 days are added to it.
\<close>

type_synonym datetime = int

definition us_per_day :: int where
  "us_per_day = 86400000000"

definition add_days :: "datetime \<Rightarrow> int \<Rightarrow> datetime" where
  "add_days t n = t + n * us_per_day"

definition delta_days :: "datetime \<Rightarrow> datetime \<Rightarrow> int" where
  "delta_days a b = (a - b) div us_per_day"

definition weekday :: "datetime \<Rightarrow> nat" where
  "weekday t = nat ((t div us_per_day) mod 7)"

definition weekday_names :: "string list" where
  "weekday_names =
     [''Monday'', ''Tuesday'', ''Wednesday'', ''Thursday'', ''Friday'', ''Saturday'', ''Sunday'']"

definition strftime_A :: "datetime \<Rightarrow> string" where
  "strftime_A t = weekday_names ! weekday t"

subsection \<open>\<open>_create_study_schedule\<close>\<close>

text \<open>
  The fields of \<open>study_info\<close> that the planner reads after parsing (the dict also holds
  \<open>deadlines\<close>, which only \<open>_save_plan\<close> passes on).  A \<open>datetime\<close> is always truthy, so
  \<open>if deadline:\<close> only asks whether the key is present.
\<close>

record study_info =
  topics :: "string list"
  daily_hours :: int
  start_date :: datetime
  deadline :: "datetime option"
  sync_calendar :: bool

definition study_session :: "string \<Rightarrow> string \<Rightarrow> session" where
  "study_session time_str topic =
     [(''time'', Str time_str), (''activity'', Str (''Study '' @ topic)),
      (''duration'', Str ''2 hours''), (''topic'', Str topic),
      (''session_type'', Str ''focused_study'')]"

definition evening_review :: session where
  "evening_review =
     [(''time'', Str ''19:00''), (''activity'', Str ''Review and practice problems''),
      (''duration'', Str ''1 hour''), (''topic'', Str ''Mixed Review''),
      (''session_type'', Str ''review'')]"

definition days_available :: "study_info \<Rightarrow> int" where
  "days_available info =
     max 1 (min (case deadline info of
                   Some d \<Rightarrow> delta_days d (start_date info)
                 | None \<Rightarrow> 7) 14)"

text \<open>
  The body of the loop over \<open>range(days_available)\<close> for one day: the sessions of the day
  and the topic index after it.  It runs only for a non-empty topic list (see
  \<open>create_study_schedule\<close>), so both indices are in range.
\<close>

definition daily_sessions :: "string list \<Rightarrow> int \<Rightarrow> int \<Rightarrow> session list \<times> int" where
  "daily_sessions tps hours topic_index =
     (let n = int (length tps);
          morning = (if hours \<ge> 2
                     then [study_session ''09:00'' (tps ! nat (topic_index mod n))] else []);
          remaining1 = (if hours \<ge> 2 then hours - 2 else hours);
          afternoon = (if remaining1 \<ge> 2
                       then [study_session ''14:00'' (tps ! nat ((topic_index + 1) mod n))]
                       else []);
          remaining2 = (if remaining1 \<ge> 2 then remaining1 - 2 else remaining1);
          topic_index' = (if remaining1 \<ge> 2 then topic_index + 1 else topic_index);
          evening = (if remaining2 \<ge> 1 then [evening_review] else [])
      in (morning @ afternoon @ evening, topic_index'))"

text \<open>\<open>day_name = (current_date + timedelta(days=day)).strftime('%A')\<close>\<close>

definition day_name :: "study_info \<Rightarrow> nat \<Rightarrow> string" where
  "day_name info day = strftime_A (add_days (start_date info) (int day))"

fun schedule_days :: "study_info \<Rightarrow> nat list \<Rightarrow> plan \<times> int \<Rightarrow> plan \<times> int" where
  "schedule_days info [] st = st"
| "schedule_days info (day # days) (schedule, topic_index) =
     (let (sessions, topic_index') = daily_sessions (topics info) (daily_hours info) topic_index
      in schedule_days info days (dict_set (day_name info day) sessions schedule, topic_index'))"

text \<open>
  The sessions that the loop builds in iteration \<open>d\<close>: the topic index is \<open>d\<close> when each day
  has an afternoon slot (\<open>daily_hours \<ge> 4\<close>) and stays 0 otherwise (lemma
  \<open>schedule_days_upto\<close>).
\<close>

definition sessions_of_day :: "study_info \<Rightarrow> nat \<Rightarrow> session list" where
  "sessions_of_day info d =
     fst (daily_sessions (topics info) (daily_hours info)
            (if daily_hours info \<ge> 4 then int d else 0))"

text \<open>
  \<open>hours_per_topic = total_hours / len(topics)\<close> is evaluated before the loop and raises
  \<open>ZeroDivisionError\<close> on an empty topic list.
\<close>

definition create_study_schedule :: "study_info \<Rightarrow> exn + plan" where
  "create_study_schedule info =
     (if topics info = [] then Inl ZeroDivisionError
      else Inr (fst (schedule_days info [0..<nat (days_available info)] ([], 0))))"

subsection \<open>\<open>_optimize_schedule\<close>\<close>

definition break_session :: "pyval \<Rightarrow> session" where
  "break_session time_val =
     [(''time'', time_val), (''activity'', Str ''Break''), (''duration'', Str ''15 minutes''),
      (''topic'', Str ''Rest''), (''session_type'', Str ''break'')]"

text \<open>\<open>session['session_type']\<close> and \<open>session['time']\<close> raise \<open>KeyError\<close> on a missing key.\<close>

fun optimize_sessions :: "session list \<Rightarrow> exn + session list" where
  "optimize_sessions [] = Inr []"
| "optimize_sessions (s # ss) =
     (case dict_get s ''session_type'' of
        None \<Rightarrow> Inl (KeyError ''session_type'')
      | Some ty \<Rightarrow>
          if ty = Str ''focused_study'' then
            (case dict_get s ''time'' of
               None \<Rightarrow> Inl (KeyError ''time'')
             | Some t \<Rightarrow>
                 (case optimize_sessions ss of
                    Inl e \<Rightarrow> Inl e
                  | Inr r \<Rightarrow> Inr (s # break_session (add_minutes_to_time t 120) # r)))
          else
            (case optimize_sessions ss of
               Inl e \<Rightarrow> Inl e
             | Inr r \<Rightarrow> Inr (s # r)))"

fun optimize_schedule :: "plan \<Rightarrow> exn + plan" where
  "optimize_schedule [] = Inr []"
| "optimize_schedule ((day, sessions) # rest) =
     (case optimize_sessions sessions of
        Inl e \<Rightarrow> Inl e
      | Inr os \<Rightarrow>
          (case optimize_schedule rest of
             Inl e \<Rightarrow> Inl e
           | Inr r \<Rightarrow> Inr ((day, os) # r)))"

text \<open>
  The keys of \<open>plan\<close> are distinct, so each assignment \<open>optimized[day] = ...\<close> adds a new
  entry after the ones before it.
\<close>

subsection \<open>\<open>_generate_plan_summary\<close>\<close>

text \<open>
  \<open>topics_covered\<close> is \<open>list(topics_covered)\<close> of a set of strings: the list that the run's
  set order gives for the topics in the order in which the loop adds them.
\<close>

record plan_summary =
  total_days :: nat
  total_sessions :: nat
  study_sessions :: nat
  topics_covered :: "string list"
  estimated_hours :: nat

fun count_study :: "session list \<Rightarrow> exn + nat" where
  "count_study [] = Inr 0"
| "count_study (s # ss) =
     (case dict_get s ''session_type'' of
        None \<Rightarrow> Inl (KeyError ''session_type'')
      | Some ty \<Rightarrow>
          (case count_study ss of
             Inl e \<Rightarrow> Inl e
           | Inr n \<Rightarrow>
               Inr ((if ty = Str ''focused_study'' \<or> ty = Str ''review'' then 1 else 0) + n)))"

text \<open>
  \<open>session.get('topic') and session['topic'] != 'Rest'\<close>: a topic counts when it is a
  non-empty string other than \<open>Rest\<close>.
\<close>

definition covered_topics :: "session list \<Rightarrow> string list" where
  "covered_topics ss =
     List.map_filter
       (\<lambda>s. case dict_get s ''topic'' of
              Some (Str t) \<Rightarrow> if t \<noteq> [] \<and> t \<noteq> ''Rest'' then Some t else None
            | _ \<Rightarrow> None) ss"

definition generate_plan_summary :: "(string list \<Rightarrow> string list) \<Rightarrow> plan \<Rightarrow> exn + plan_summary" where
  "generate_plan_summary list_of_set p =
     (let all_sessions = concat (map snd p) in
      case count_study all_sessions of
        Inl e \<Rightarrow> Inl e
      | Inr n \<Rightarrow>
          Inr \<lparr>total_days = length p, total_sessions = length all_sessions,
               study_sessions = n, topics_covered = list_of_set (covered_topics all_sessions),
               estimated_hours = n * 2\<rparr>)"

subsection \<open>\<open>generate_study_plan\<close>\<close>

text \<open>
  The returned dict: \<open>plan\<close> and \<open>summary\<close> are present on success only.
\<close>

record plan_result =
  success :: bool
  message :: string
  plan :: "plan option"
  summary :: "plan_summary option"

text \<open>The two steps that build the plan: \<open>_create_study_schedule\<close>, then \<open>_optimize_schedule\<close>.\<close>

definition optimized_plan :: "study_info \<Rightarrow> exn + plan" where
  "optimized_plan info =
     (case create_study_schedule info of
        Inl e \<Rightarrow> Inl e
      | Inr p \<Rightarrow> optimize_schedule p)"

text \<open>
  The body of the \<open>try\<close> block.  \<open>_parse_study_request\<close> is the parameter \<open>parse\<close>, and it may
  raise; the source's own is \<open>parse_study_request\<close> below.  \<open>list_of_set\<close> is \<open>list(s)\<close> for the
  sets of the run.  \<open>_sync_to_calendar\<close> and \<open>_save_plan\<close> call the
  calendar agent and the database inside handlers of their own that swallow every
  exception; they return nothing and do not change the plan, so they leave no trace here.
\<close>

definition generate_body ::
  "(string list \<Rightarrow> string list) \<Rightarrow> (string \<Rightarrow> 'c \<Rightarrow> exn + study_info) \<Rightarrow> string \<Rightarrow> 'c \<Rightarrow>
     exn + plan_result" where
  "generate_body list_of_set parse user_input ctxt =
     (case parse user_input ctxt of
        Inl e \<Rightarrow> Inl e
      | Inr info \<Rightarrow>
          if topics info = [] then
            Inr \<lparr>success = False,
                 message = ''Could not identify study topics. Please specify what you need to study.'',
                 plan = None, summary = None\<rparr>
          else
            (case optimized_plan info of
               Inl e \<Rightarrow> Inl e
             | Inr p \<Rightarrow>
                 (case generate_plan_summary list_of_set p of
                    Inl e \<Rightarrow> Inl e
                  | Inr sm \<Rightarrow>
                      Inr \<lparr>success = True,
                           message = ''Generated '' @ str_nat (length p) @ '' day study plan'',
                           plan = Some p, summary = Some sm\<rparr>)))"

text \<open>\<open>except Exception as e\<close>: every exception of the body becomes a failure result.\<close>

definition generate_study_plan ::
  "(string list \<Rightarrow> string list) \<Rightarrow> (string \<Rightarrow> 'c \<Rightarrow> exn + study_info) \<Rightarrow> string \<Rightarrow> 'c \<Rightarrow>
     exn + plan_result" where
  "generate_study_plan list_of_set parse user_input ctxt =
     (case generate_body list_of_set parse user_input ctxt of
        Inl e \<Rightarrow>
          Inr \<lparr>success = False, message = ''Planning error: '' @ str_exn e,
               plan = None, summary = None\<rparr>
      | Inr r \<Rightarrow> Inr r)"

subsection \<open>What a run reads besides its arguments\<close>




subsection \<open>\<open>_extract_topics\<close>\<close>




subsection \<open>\<open>_extract_deadline\<close>\<close>





subsection \<open>\<open>_parse_study_request\<close>\<close>




section \<open>The scheduler utilities (\<open>utils/scheduler_utils.py\<close>)\<close>

text \<open>
  The schedules of these functions are typed \<open>Dict[str, List[Any]]\<close>.  The functions tell
  three shapes of list element apart with \<open>isinstance\<close>: a dict (a session as above), a
  tuple \<open>(topic, hours)\<close> as \<open>optimize_topic_distribution\<close> produces it, and anything else.
\<close>

datatype item = DictItem session | TupleItem string int | OtherItem

type_synonym schedule = "(string \<times> item list) list"

subsection \<open>\<open>optimize_topic_distribution\<close>\<close>

type_synonym allocation = "(string \<times> (string \<times> int) list) list"

text \<open>
  What \<open>optimize_topic_distribution\<close> returns is itself a schedule for the other
  functions: the same dict, its pairs being the tuples.
\<close>

definition as_schedule :: "allocation \<Rightarrow> schedule" where
  "as_schedule a = map (\<lambda>(day, slots). (day, map (\<lambda>(t, h). TupleItem t h) slots)) a"

text \<open>\<open>f"Day {current_day + 1}"\<close>; \<open>current_day\<close> starts at 0 and only grows.\<close>

definition day_key :: "int \<Rightarrow> string" where
  "day_key current_day = ''Day '' @ str_nat (nat (current_day + 1))"

text \<open>\<open>if day_key not in schedule: schedule[day_key] = []\<close>\<close>

definition ensure_day :: "string \<Rightarrow> allocation \<Rightarrow> allocation" where
  "ensure_day k sch = (if k \<in> set (dict_keys sch) then sch else sch @ [(k, [])])"

text \<open>
  The \<open>while topic_hours > 0\<close> loop for one topic, on the state (schedule, current day,
  hours remaining today, hours of the topic still to place).  It leaves through the loop
  condition or through \<open>break\<close>, once \<open>current_day\<close> has reached \<open>available_days\<close>.
\<close>

function allocate_topic ::
  "int \<Rightarrow> int \<Rightarrow> string \<Rightarrow> allocation \<times> int \<times> int \<times> int \<Rightarrow> allocation \<times> int \<times> int" where
  "allocate_topic available_days hours topic (sch, current_day, hours_remaining_today, topic_hours) =
     (if topic_hours > 0 then
        (let sch1 = ensure_day (day_key current_day) sch;
             hours_to_allocate = min topic_hours hours_remaining_today;
             sch2 = (if hours_to_allocate > 0
                     then dict_append (day_key current_day) (topic, hours_to_allocate) sch1
                     else sch1);
             topic_hours' = (if hours_to_allocate > 0 then topic_hours - hours_to_allocate
                             else topic_hours);
             remaining = (if hours_to_allocate > 0 then hours_remaining_today - hours_to_allocate
                          else hours_remaining_today)
         in if remaining \<le> 0 then
              (if current_day + 1 \<ge> available_days then (sch2, current_day + 1, hours)
               else allocate_topic available_days hours topic
                      (sch2, current_day + 1, hours, topic_hours'))
            else allocate_topic available_days hours topic
                   (sch2, current_day, remaining, topic_hours'))
      else (sch, current_day, hours_remaining_today))"
  by pat_completeness auto
termination
  by (relation "measures [\<lambda>(a, h, t, s, cd, hr, th). nat (a - cd),
                          \<lambda>(a, h, t, s, cd, hr, th). nat th]")
     (auto simp: min_def split: if_splits)

declare allocate_topic.simps [simp del]

text \<open>The \<open>for topic in topics\<close> loop, with its \<open>break\<close> after the inner loop.\<close>

fun allocate_topics ::
  "int \<Rightarrow> int \<Rightarrow> int \<Rightarrow> string list \<Rightarrow> allocation \<times> int \<times> int \<Rightarrow> allocation" where
  "allocate_topics available_days hours hours_per_topic [] (sch, current_day, remaining) = sch"
| "allocate_topics available_days hours hours_per_topic (topic # rest) (sch, current_day, remaining) =
     (case allocate_topic available_days hours topic (sch, current_day, remaining, hours_per_topic) of
        (sch', current_day', remaining') \<Rightarrow>
          if current_day' \<ge> available_days then sch'
          else allocate_topics available_days hours hours_per_topic rest
                 (sch', current_day', remaining'))"

text \<open>\<open>total_hours // len(topics)\<close> raises \<open>ZeroDivisionError\<close> on an empty topic list.\<close>

definition optimize_topic_distribution :: "string list \<Rightarrow> int \<Rightarrow> int \<Rightarrow> exn + allocation" where
  "optimize_topic_distribution tps available_days hours =
     (if tps = [] then Inl ZeroDivisionError
      else Inr (allocate_topics available_days hours
                  (max 1 ((available_days * hours) div int (length tps))) tps ([], 0, hours)))"

subsection \<open>\<open>apply_spaced_repetition\<close>\<close>

text \<open>
  The topic of a list element: \<open>session.get('topic')\<close> for a dict (Python's \<open>None\<close> when the
  key is missing), the first component for a tuple; any other element is skipped
  (\<open>None\<close> here).
\<close>

definition item_topic :: "item \<Rightarrow> pyval option" where
  "item_topic x =
     (case x of
        DictItem s \<Rightarrow> Some (case dict_get s ''topic'' of None \<Rightarrow> NoneVal | Some v \<Rightarrow> v)
      | TupleItem t h \<Rightarrow> Some (Str t)
      | OtherItem \<Rightarrow> None)"

text \<open>\<open>schedule[day]\<close>, for a day that is a key of the schedule.\<close>

definition sessions_on :: "('k \<times> 'v list) list \<Rightarrow> 'k \<Rightarrow> 'v list" where
  "sessions_on sch day = (case dict_get sch day of Some ss \<Rightarrow> ss | None \<Rightarrow> [])"

text \<open>The first loop: \<open>topic_first_appearance\<close>, a dict from topics to days.\<close>

fun record_topics ::
  "string \<Rightarrow> item list \<Rightarrow> (pyval \<times> string) list \<Rightarrow> (pyval \<times> string) list" where
  "record_topics day [] tfa = tfa"
| "record_topics day (x # xs) tfa =
     (case item_topic x of
        None \<Rightarrow> record_topics day xs tfa
      | Some t \<Rightarrow>
          if t \<in> set (dict_keys tfa) then record_topics day xs tfa
          else record_topics day xs (tfa @ [(t, day)]))"

fun first_appearances ::
  "schedule \<Rightarrow> string list \<Rightarrow> (pyval \<times> string) list \<Rightarrow> (pyval \<times> string) list" where
  "first_appearances sch [] tfa = tfa"
| "first_appearances sch (day # days) tfa =
     first_appearances sch days (record_topics day (sessions_on sch day) tfa)"

definition review_session :: "pyval \<Rightarrow> session" where
  "review_session topic =
     [(''time'', Str ''20:00''), (''activity'', Str (''Review '' @ str_val topic)),
      (''duration'', Str ''30 minutes''), (''topic'', topic),
      (''session_type'', Str ''review'')]"

text \<open>The second loop: for each topic, the intervals 1, 3 and 7 after its first day.\<close>

fun add_intervals :: "string list \<Rightarrow> pyval \<Rightarrow> nat \<Rightarrow> nat list \<Rightarrow> schedule \<Rightarrow> schedule" where
  "add_intervals days topic first_idx [] sch = sch"
| "add_intervals days topic first_idx (interval # rest) sch =
     (let review_day_idx = first_idx + interval
      in add_intervals days topic first_idx rest
           (if review_day_idx < length days
            then dict_append (days ! review_day_idx) (DictItem (review_session topic)) sch
            else sch))"

fun add_reviews :: "string list \<Rightarrow> (pyval \<times> string) list \<Rightarrow> schedule \<Rightarrow> exn + schedule" where
  "add_reviews days [] sch = Inr sch"
| "add_reviews days ((topic, first_day) # rest) sch =
     (case list_index days first_day of
        None \<Rightarrow> Inl (ValueError ([CHR 0x27] @ first_day @ [CHR 0x27] @ '' is not in list''))
      | Some first_idx \<Rightarrow> add_reviews days rest (add_intervals days topic first_idx [1, 3, 7] sch))"

text \<open>
  \<open>sorted(schedule.keys())\<close> orders the keys as strings.  The parameter \<open>topics\<close> is not
  used by the source.  The copy of the schedule is shallow, so the source also appends the
  reviews to the lists of its argument; the model gives the returned schedule.
\<close>

definition apply_spaced_repetition :: "schedule \<Rightarrow> string list \<Rightarrow> exn + schedule" where
  "apply_spaced_repetition sch tps =
     (let days = sort (dict_keys sch)
      in add_reviews days (first_appearances sch days []) sch)"

subsection \<open>\<open>balance_cognitive_load\<close>\<close>

text \<open>
  \<open>topic_difficulty.get(session.get('topic', ''), 0.5)\<close>.  The keys of \<open>topic_difficulty\<close>
  are strings, so the topic \<open>None\<close> gets the default.  Difficulties are floats; they are
  modelled by the real numbers they stand for, and \<open>0.7\<close> by the decimal.
\<close>

definition session_topic :: "session \<Rightarrow> pyval" where
  "session_topic s = (case dict_get s ''topic'' of None \<Rightarrow> Str [] | Some v \<Rightarrow> v)"







definition dict_sessions :: "item list \<Rightarrow> session list" where
  "dict_sessions xs = List.map_filter (\<lambda>x. case x of DictItem s \<Rightarrow> Some s | _ \<Rightarrow> None) xs"

subsection \<open>\<open>add_breaks\<close>\<close>

text \<open>
  \<open>i < len(sessions) - 1\<close> holds exactly when sessions follow the current one.
\<close>

fun add_breaks_day :: "int \<Rightarrow> item list \<Rightarrow> item list" where
  "add_breaks_day break_interval [] = []"
| "add_breaks_day break_interval (DictItem s # rest) =
     (if (dict_get s ''session_type'' = Some (Str ''focused_study'') \<or>
          dict_get s ''session_type'' = Some (Str ''review'')) \<and> rest \<noteq> []
      then DictItem s
           # DictItem (break_session
               (add_minutes_to_time
                  (case dict_get s ''time'' of None \<Rightarrow> Str ''09:00'' | Some t \<Rightarrow> t)
                  break_interval))
           # add_breaks_day break_interval rest
      else DictItem s # add_breaks_day break_interval rest)"
| "add_breaks_day break_interval (x # rest) = x # add_breaks_day break_interval rest"

definition add_breaks :: "schedule \<Rightarrow> int \<Rightarrow> schedule" where
  "add_breaks sch break_interval =
     map (\<lambda>(day, sessions). (day, add_breaks_day break_interval sessions)) sch"

subsection \<open>\<open>calculate_optimal_session_length\<close>\<close>

text \<open>
  The difficulty is a float, and the source compares it with the floats that the literals
  \<open>0.7\<close> and \<open>0.3\<close> denote: the doubles nearest to the decimals, both a little below
  them.  A float is modelled by the real number it is (the infinities and not-a-number
  are left out), so the two literals are these doubles, not the decimals.
\<close>

definition double_0_7 :: real where
  "double_0_7 = 3152519739159347 / 2 ^ 52"

definition double_0_3 :: real where
  "double_0_3 = 5404319552844595 / 2 ^ 54"

text \<open>
  \<open>int(time_of_day.split(':')[0])\<close> takes the text before the first colon and converts it
  with Python's built-in \<open>int\<close>, which is the parameter \<open>py_int\<close> (\<open>None\<close> when it raises
  \<open>ValueError\<close>; the bare \<open>except\<close> then leaves the base length as it is).  The products
  \<open>base_length * 1.1\<close> and \<open>base_length * 0.9\<close> are float products cut to an integer by
  \<open>int\<close>; for the three base lengths the doubles are 49.50000000000001, 66.0,
  99.00000000000001, 40.5, 54.0 and 81.0, and cutting them gives the same integers as
  cutting the exact products, which is what the model does.
\<close>

definition calculate_optimal_session_length ::
  "(string \<Rightarrow> int option) \<Rightarrow> real \<Rightarrow> string \<Rightarrow> int" where
  "calculate_optimal_session_length py_int difficulty time_of_day =
     (let base_length =
            (if difficulty > double_0_7 then 45 else if difficulty < double_0_3 then 90 else 60)
      in case py_int (takeWhile (\<lambda>c. c \<noteq> CHR '':'') time_of_day) of
           None \<Rightarrow> base_length
         | Some hour \<Rightarrow>
             if 6 \<le> hour \<and> hour < 12 then \<lfloor>real_of_int base_length * 1.1\<rfloor>
             else if 12 \<le> hour \<and> hour < 18 then base_length
             else if 18 \<le> hour \<and> hour < 22 then \<lfloor>real_of_int base_length * 0.9\<rfloor>
             else base_length)"

section \<open>The stages in the order of the specification\<close>

text \<open>
  \<open>generate_study_plan\<close> runs \<open>_create_study_schedule\<close> and \<open>_optimize_schedule\<close>.  The
  specification puts the injection of reviews between the two: initial allocation, then
  \<open>apply_spaced_repetition\<close>, then the insertion of breaks.  All three work on a dict from
  day labels to lists; the plan of the planner is a schedule whose list elements are all
  dicts.
\<close>

definition plan_schedule :: "plan \<Rightarrow> schedule" where
  "plan_schedule p = map (\<lambda>(day, sessions). (day, map DictItem sessions)) p"

text \<open>
  \<open>_optimize_schedule\<close> reads \<open>session['session_type']\<close> of every list element, which
  raises \<open>TypeError\<close> on an element that is not a dict.
\<close>

primrec item_sessions :: "item list \<Rightarrow> exn + session list" where
  "item_sessions [] = Inr []"
| "item_sessions (x # xs) =
     (case x of
        DictItem s \<Rightarrow> (case item_sessions xs of Inl e \<Rightarrow> Inl e | Inr ss \<Rightarrow> Inr (s # ss))
      | _ \<Rightarrow> Inl (OtherException ''TypeError''))"

primrec schedule_plan :: "schedule \<Rightarrow> exn + plan" where
  "schedule_plan [] = Inr []"
| "schedule_plan (entry # rest) =
     (case item_sessions (snd entry) of
        Inl e \<Rightarrow> Inl e
      | Inr ss \<Rightarrow> (case schedule_plan rest of Inl e \<Rightarrow> Inl e | Inr p \<Rightarrow> Inr ((fst entry, ss) # p)))"

definition pipeline_plan :: "study_info \<Rightarrow> exn + plan" where
  "pipeline_plan info =
     (case create_study_schedule info of
        Inl e \<Rightarrow> Inl e
      | Inr p \<Rightarrow>
          (case apply_spaced_repetition (plan_schedule p) (topics info) of
             Inl e \<Rightarrow> Inl e
           | Inr sch \<Rightarrow>
               (case schedule_plan sch of
                  Inl e \<Rightarrow> Inl e
                | Inr q \<Rightarrow> optimize_schedule q)))"

section \<open>Notions used in the statements\<close>

subsection \<open>Minutes and breaks\<close>

text \<open>
  The code writes a duration as text.  These are the four durations it writes, in minutes;
  the statements about minutes below read sessions through this function.
\<close>

definition duration_minutes :: "session \<Rightarrow> nat" where
  "duration_minutes s =
     (case dict_get s ''duration'' of
        Some (Str d) \<Rightarrow>
          if d = ''2 hours'' then 120
          else if d = ''1 hour'' then 60
          else if d = ''30 minutes'' then 30
          else if d = ''15 minutes'' then 15
          else 0
      | _ \<Rightarrow> 0)"

definition day_minutes :: "session list \<Rightarrow> nat" where
  "day_minutes ss = sum_list (map duration_minutes ss)"

definition is_break :: "session \<Rightarrow> bool" where
  "is_break s = (dict_get s ''session_type'' = Some (Str ''break''))"

text \<open>
  Breaks are well placed in a day when the last session is not a Break and no Break
  follows a Break.
\<close>

definition is_break_item :: "item \<Rightarrow> bool" where
  "is_break_item x = (case x of DictItem s \<Rightarrow> is_break s | _ \<Rightarrow> False)"

fun breaks_well_placed :: "item list \<Rightarrow> bool" where
  "breaks_well_placed [] = True"
| "breaks_well_placed [x] = (\<not> is_break_item x)"
| "breaks_well_placed (x # y # rest) =
     (\<not> (is_break_item x \<and> is_break_item y) \<and> breaks_well_placed (y # rest))"

text \<open>
  The sessions of a day of the pipeline are of three kinds: the Breaks, the reviews that
  \<open>apply_spaced_repetition\<close> appended, and the sessions that \<open>_create_study_schedule\<close>
  placed.  The daily cap bounds the minutes of the last kind; every appended review adds 30
  minutes and every Break 15.
\<close>

definition is_added_review :: "session \<Rightarrow> bool" where
  "is_added_review s \<longleftrightarrow> s = review_session (session_topic s)"

definition from_allocation :: "session \<Rightarrow> bool" where
  "from_allocation s \<longleftrightarrow> \<not> is_break s \<and> \<not> is_added_review s"

definition allocation_within_cap :: "int \<Rightarrow> session list \<Rightarrow> bool" where
  "allocation_within_cap hours ss \<longleftrightarrow>
     int (day_minutes (filter from_allocation ss)) \<le> hours * 60 \<and>
     day_minutes ss =
       day_minutes (filter from_allocation ss) + 30 * length (filter is_added_review ss)
         + 15 * length (filter is_break ss)"

subsection \<open>First days, added reviews and slots\<close>

text \<open>
  A topic appears on a day when one of the day's list elements carries it.  The first
  day of a topic in the order of \<open>sorted(schedule.keys())\<close> is then
  \<open>find (appears_on sch t) (sort (dict_keys sch))\<close>.
\<close>

definition appears_on :: "schedule \<Rightarrow> pyval \<Rightarrow> string \<Rightarrow> bool" where
  "appears_on sch t day \<longleftrightarrow> Some t \<in> item_topic ` set (sessions_on sch day)"

text \<open>
  The reviews that the second loop of \<open>apply_spaced_repetition\<close> appends to one day, in the
  order in which it appends them.
\<close>

definition interval_reviews :: "string list \<Rightarrow> pyval \<Rightarrow> nat \<Rightarrow> nat list \<Rightarrow> string \<Rightarrow> item list" where
  "interval_reviews days t i ks day =
     concat (map (\<lambda>k. if i + k < length days \<and> days ! (i + k) = day
                       then [DictItem (review_session t)] else []) ks)"

definition reviews_added :: "string list \<Rightarrow> (pyval \<times> string) list \<Rightarrow> string \<Rightarrow> item list" where
  "reviews_added days tfa day =
     concat (map (\<lambda>(t, fd). case list_index days fd of
                                None \<Rightarrow> []
                              | Some i \<Rightarrow> interval_reviews days t i [1, 3, 7] day) tfa)"

text \<open>
  A topic has a slot in an allocation when some day holds a pair of the topic and at
  least one hour.
\<close>

definition has_slot :: "allocation \<Rightarrow> string \<Rightarrow> bool" where
  "has_slot sch t \<longleftrightarrow> (\<exists>(day, slots) \<in> set sch. \<exists>(t', a) \<in> set slots. t' = t \<and> 1 \<le> a)"

text \<open>
  The hours placed so far, read from the state of the allocation loops: the full days
  before \<open>current_day\<close> and the part of the current day that is taken.
\<close>

definition used_hours :: "int \<Rightarrow> int \<Rightarrow> int \<Rightarrow> int" where
  "used_hours h cd hr = cd * h + (h - hr)"

text \<open>
  What one run of the inner loop guarantees, from a state with \<open>0 < hours_remaining_today
  \<le> hours\<close> and \<open>current_day < available_days\<close>: the same holds afterwards unless the last
  day was filled, the placed hours grow by \<open>topic_hours\<close> as long as they fit into
  \<open>available_days * hours\<close>, the keys are day keys of days below \<open>available_days\<close>, and
  slots are only added.
\<close>

definition alloc_post ::
  "int \<Rightarrow> int \<Rightarrow> string \<Rightarrow> allocation \<Rightarrow> int \<Rightarrow> int \<Rightarrow> int \<Rightarrow> allocation \<times> int \<times> int \<Rightarrow> bool" where
  "alloc_post D h t sch cd hr th r =
     (case r of (sch', cd', hr') \<Rightarrow>
        0 < hr' \<and> hr' \<le> h \<and> cd \<le> cd' \<and>
        (used_hours h cd hr + th \<le> D * h \<longrightarrow> used_hours h cd' hr' = used_hours h cd hr + th) \<and>
        set (dict_keys sch') \<subseteq> set (dict_keys sch) \<union> day_key ` {0..<D} \<and>
        (distinct (dict_keys sch) \<longrightarrow> distinct (dict_keys sch')) \<and>
        (\<forall>u. has_slot sch u \<longrightarrow> has_slot sch' u) \<and>
        (0 < th \<longrightarrow> has_slot sch' t))"

subsection \<open>Two runs\<close>


subsection \<open>Examples\<close>

text \<open>
  Two topics, four hours a day, a deadline two days after the start.  \<open>jan_1_2024\<close> is
  Monday 2024-01-01 00:00 (day 738886 of the calendar, counted from 1).
\<close>

definition scenario :: "datetime \<Rightarrow> study_info" where
  "scenario s =
     \<lparr>topics = [''Calculus'', ''Physics''], daily_hours = 4, start_date = s,
      deadline = Some (add_days s 2), sync_calendar = True\<rparr>"

definition jan_1_2024 :: datetime where
  "jan_1_2024 = 738885 * us_per_day"

text \<open>Three topics and a deadline eight days after the start.\<close>

definition three_topics :: study_info where
  "three_topics =
     \<lparr>topics = [''Calculus'', ''Physics'', ''Chemistry''], daily_hours = 4,
      start_date = jan_1_2024, deadline = Some (add_days jan_1_2024 8), sync_calendar = True\<rparr>"

text \<open>Schedules for the scheduler utilities.\<close>

definition four_days :: schedule where
  "four_days =
     [(''Day 1'', [TupleItem ''Calculus'' 2]),
      (''Day 2'', [TupleItem ''Physics'' 2]),
      (''Day 3'', [TupleItem ''Calculus'' 1]),
      (''Day 4'', [])]"

definition ten_alloc :: allocation where
  "ten_alloc =
     [(''Day 1'', [(''Calculus'', 1)]), (''Day 2'', [(''Calculus'', 1)]),
      (''Day 3'', [(''Calculus'', 1)]), (''Day 4'', [(''Calculus'', 1)]),
      (''Day 5'', [(''Calculus'', 1)]), (''Day 6'', [(''Physics'', 1)]),
      (''Day 7'', [(''Physics'', 1)]), (''Day 8'', [(''Physics'', 1)]),
      (''Day 9'', [(''Physics'', 1)]), (''Day 10'', [(''Physics'', 1)])]"



text \<open>A day without Breaks, with a tuple between two sessions.\<close>

definition study_then_review :: schedule where
  "study_then_review =
     [(''Monday'',
       [DictItem (study_session ''09:00'' ''Calculus''),
        TupleItem ''Physics'' 2,
        DictItem evening_review])]"





section \<open>Properties\<close>

subsection \<open>Clock times and weekdays\<close>

lemma add_minutes_0900: "add_minutes_to_time (Str ''09:00'') 120 = Str ''11:00''"
  by (simp add: add_minutes_to_time_def strptime_HM_def parse_field_def is_digit_def
      digit_val_def strftime_HM_def two_digits_def digit_char_def)

lemma add_minutes_1400: "add_minutes_to_time (Str ''14:00'') 120 = Str ''16:00''"
  by (simp add: add_minutes_to_time_def strptime_HM_def parse_field_def is_digit_def
      digit_val_def strftime_HM_def two_digits_def digit_char_def)

lemma weekday_add_days: "weekday (add_days t n) = nat ((int (weekday t) + n) mod 7)"
  by (simp add: weekday_def add_days_def us_per_day_def mod_simps add.commute)

lemma weekday_lt7: "weekday t < 7"
  by (simp add: weekday_def nat_less_iff)

lemma distinct_weekday_names: "distinct weekday_names"
  by (simp add: weekday_names_def)

lemma strftime_A_eq_iff: "strftime_A a = strftime_A b \<longleftrightarrow> weekday a = weekday b"
  unfolding strftime_A_def
  using distinct_weekday_names weekday_lt7[of a] weekday_lt7[of b]
  by (simp add: nth_eq_iff_index_eq weekday_names_def)

lemma next_day_name: "strftime_A (add_days s 1) \<noteq> strftime_A s"
proof -
  have "weekday (add_days s 1) \<noteq> weekday s"
    using weekday_lt7[of s] by (simp add: weekday_add_days nat_eq_iff) presburger
  then show ?thesis by (simp add: strftime_A_eq_iff)
qed

lemma monday: "strftime_A jan_1_2024 = ''Monday''"
  by (simp add: jan_1_2024_def strftime_A_def weekday_def us_per_day_def weekday_names_def)

lemma tuesday: "strftime_A (add_days jan_1_2024 1) = ''Tuesday''"
  by (simp add: jan_1_2024_def strftime_A_def weekday_def us_per_day_def weekday_names_def
      add_days_def)

subsection \<open>Sessions\<close>

lemma not_break_study [simp]: "\<not> is_break (study_session t tp)"
  by (simp add: is_break_def study_session_def dict_get_def)

lemma not_break_evening [simp]: "\<not> is_break evening_review"
  by (simp add: is_break_def evening_review_def dict_get_def)

lemma is_break_break [simp]: "is_break (break_session t)"
  by (simp add: is_break_def break_session_def dict_get_def)

lemma minutes_study [simp]: "duration_minutes (study_session t tp) = 120"
  by (simp add: duration_minutes_def study_session_def dict_get_def)

lemma minutes_evening [simp]: "duration_minutes evening_review = 60"
  by (simp add: duration_minutes_def evening_review_def dict_get_def)

lemma minutes_break [simp]: "duration_minutes (break_session t) = 15"
  by (simp add: duration_minutes_def break_session_def dict_get_def)

lemma optimize_study_session:
  "optimize_sessions (study_session t tp # ss) =
     (case optimize_sessions ss of
        Inl e \<Rightarrow> Inl e
      | Inr r \<Rightarrow>
          Inr (study_session t tp # break_session (add_minutes_to_time (Str t) 120) # r))"
  by (cases "optimize_sessions ss") (simp_all add: study_session_def dict_get_def)

lemma optimize_evening_Cons:
  "optimize_sessions (evening_review # ss) =
     (case optimize_sessions ss of Inl e \<Rightarrow> Inl e | Inr r \<Rightarrow> Inr (evening_review # r))"
  by (cases "optimize_sessions ss") (simp_all add: evening_review_def dict_get_def)

subsection \<open>The example request\<close>

lemma scenario_hours: "daily_hours (scenario s) = 4"
  by (simp add: scenario_def)

lemma create_scenario:
  "create_study_schedule (scenario s) =
     Inr [(strftime_A s,
           [study_session ''09:00'' ''Calculus'', study_session ''14:00'' ''Physics'']),
          (strftime_A (add_days s 1),
           [study_session ''09:00'' ''Physics'', study_session ''14:00'' ''Calculus''])]"
proof -
  have d: "delta_days (add_days s 2) s = 2"
    by (simp add: delta_days_def add_days_def us_per_day_def)
  have n: "[0..<2] = [0, Suc 0]"
    by (simp add: upt_rec)
  have z: "add_days s 0 = s"
    by (simp add: add_days_def)
  show ?thesis
    using next_day_name[of s]
    by (simp add: scenario_def create_study_schedule_def days_available_def d n z
        daily_sessions_def day_name_def Let_def)
qed

lemma optimized_scenario:
  "optimized_plan (scenario s) =
     Inr [(strftime_A s,
           [study_session ''09:00'' ''Calculus'', break_session (Str ''11:00''),
            study_session ''14:00'' ''Physics'', break_session (Str ''16:00'')]),
          (strftime_A (add_days s 1),
           [study_session ''09:00'' ''Physics'', break_session (Str ''11:00''),
            study_session ''14:00'' ''Calculus'', break_session (Str ''16:00'')])]"
  by (simp add: optimized_plan_def create_scenario optimize_study_session add_minutes_0900
      add_minutes_1400 del: optimize_sessions.simps(2))

text \<open>
  C8, as amended.  For the request with topics Calculus and Physics, four hours a day and
  two available days, whatever the start date: \<open>_create_study_schedule\<close> builds a first day
  of Calculus at 09:00 and Physics at 14:00 and a second day of Physics at 09:00 and
  Calculus at 14:00, each session of two hours (120 minutes), the topic index advancing
  with the afternoon slot.  In the plan that \<open>_optimize_schedule\<close> then returns these are,
  day by day, the sessions other than Breaks, and each day begins with its morning session,
  a 15-minute Break at 11:00 and its afternoon session.
\<close>

theorem scenario_plan:
  "create_study_schedule (scenario s) =
     Inr [(strftime_A s,
           [study_session ''09:00'' ''Calculus'', study_session ''14:00'' ''Physics'']),
          (strftime_A (add_days s 1),
           [study_session ''09:00'' ''Physics'', study_session ''14:00'' ''Calculus''])]
   \<and> (case optimized_plan (scenario s) of
        Inl e \<Rightarrow> None
      | Inr p \<Rightarrow> Some (map (\<lambda>(d, ss). (d, filter (\<lambda>x. \<not> is_break x) ss)) p)) =
     Some [(strftime_A s,
            [study_session ''09:00'' ''Calculus'', study_session ''14:00'' ''Physics'']),
           (strftime_A (add_days s 1),
            [study_session ''09:00'' ''Physics'', study_session ''14:00'' ''Calculus''])]
   \<and> (case optimized_plan (scenario s) of
        Inl e \<Rightarrow> None
      | Inr p \<Rightarrow> Some (map (\<lambda>(d, ss). (d, take 3 ss)) p)) =
     Some [(strftime_A s,
            [study_session ''09:00'' ''Calculus'', break_session (Str ''11:00''),
             study_session ''14:00'' ''Physics'']),
           (strftime_A (add_days s 1),
            [study_session ''09:00'' ''Physics'', break_session (Str ''11:00''),
             study_session ''14:00'' ''Calculus''])]
   \<and> duration_minutes (study_session t tp) = 120
   \<and> duration_minutes (break_session v) = 15"
  by (simp add: create_scenario optimized_scenario)

text \<open>
  C8 as stated fails on the returned plan: its first day is not the two study sessions
  alone.
\<close>

theorem scenario_plan_counterexample:
  "optimized_plan (scenario jan_1_2024) \<noteq>
     Inr [(''Monday'',
           [study_session ''09:00'' ''Calculus'', study_session ''14:00'' ''Physics'']),
          (''Tuesday'',
           [study_session ''09:00'' ''Physics'', study_session ''14:00'' ''Calculus''])]"
  by (simp add: optimized_scenario monday tuesday)

subsection \<open>Breaks at the end of a day\<close>

text \<open>
  C3, evaluated on the example request.  \<open>_optimize_schedule\<close> appends a Break after every
  focused-study session, the last one of the day included: on both days of the plan the
  last session is a Break.
\<close>

theorem optimize_schedule_trailing_break:
  "(case optimized_plan (scenario jan_1_2024) of
      Inl e \<Rightarrow> []
    | Inr p \<Rightarrow> map (\<lambda>(d, ss). (d, is_break (last ss))) p) =
   [(''Monday'', True), (''Tuesday'', True)]"
  by (simp add: optimized_scenario monday tuesday)

subsection \<open>Days of the schedule and of the plan\<close>

lemma dict_set_all:
  "Q v \<Longrightarrow> \<forall>(k', v') \<in> set d. Q v' \<Longrightarrow> \<forall>(k', v') \<in> set (dict_set k v d). Q v'"
  by (induction d) auto

lemma schedule_days_values:
  assumes "\<forall>(k, v) \<in> set sch. \<exists>i. v = fst (daily_sessions (topics info) (daily_hours info) i)"
  shows "\<forall>(k, v) \<in> set (fst (schedule_days info days (sch, ti))).
           \<exists>i. v = fst (daily_sessions (topics info) (daily_hours info) i)"
  using assms
proof (induction days arbitrary: sch ti)
  case Nil
  then show ?case by simp
next
  case (Cons d days)
  obtain ss ti' where ds: "daily_sessions (topics info) (daily_hours info) ti = (ss, ti')"
    by (cases "daily_sessions (topics info) (daily_hours info) ti")
  have "\<forall>(k, v) \<in> set (dict_set (day_name info d) ss sch).
           \<exists>i. v = fst (daily_sessions (topics info) (daily_hours info) i)"
  proof (rule dict_set_all)
    show "\<exists>i. ss = fst (daily_sessions (topics info) (daily_hours info) i)"
      using ds by (metis fst_conv)
    show "\<forall>(k', v') \<in> set sch. \<exists>i. v' = fst (daily_sessions (topics info) (daily_hours info) i)"
      by (rule Cons.prems)
  qed
  from Cons.IH[OF this] show ?case by (simp add: ds)
qed

lemma optimize_schedule_values:
  assumes "\<forall>(k, v) \<in> set p. \<exists>r. optimize_sessions v = Inr r \<and> R r"
  shows "\<exists>q. optimize_schedule p = Inr q \<and> (\<forall>(k, r) \<in> set q. R r)"
  using assms
proof (induction p)
  case Nil
  then show ?case by simp
next
  case (Cons a p)
  obtain k v where a: "a = (k, v)" by (cases a)
  from Cons.prems a obtain r where r: "optimize_sessions v = Inr r" "R r" by auto
  from Cons obtain q where q: "optimize_schedule p = Inr q" "\<forall>(k, r) \<in> set q. R r" by auto
  show ?case by (simp add: a r q)
qed

subsection \<open>Weekday names as day keys\<close>

lemma dict_get_dict_set:
  "dict_get (dict_set k v d) k' = (if k' = k then Some v else dict_get d k')"
  by (induction d) (auto simp: dict_get_def)

lemma keys_dict_set: "set (dict_keys (dict_set k v d)) = insert k (set (dict_keys d))"
  by (induction d) (auto simp: dict_keys_def)

lemma length_dict_set:
  "length (dict_set k v d) = (if k \<in> set (dict_keys d) then length d else Suc (length d))"
  by (induction d) (auto simp: dict_keys_def)

lemma distinct_dict_set: "distinct (dict_keys d) \<Longrightarrow> distinct (dict_keys (dict_set k v d))"
  using keys_dict_set[of k v]
  by (induction d) (auto simp: dict_keys_def)

lemma snd_daily_sessions:
  "snd (daily_sessions tps h ti) = (if h \<ge> 4 then ti + 1 else ti)"
  by (simp add: daily_sessions_def Let_def)

lemma schedule_days_append:
  "schedule_days info (xs @ ys) st = schedule_days info ys (schedule_days info xs st)"
proof (induction xs arbitrary: st)
  case Nil
  then show ?case by simp
next
  case (Cons x xs)
  obtain sch ti where st: "st = (sch, ti)" by (cases st)
  show ?case by (simp add: st Cons.IH Let_def split: prod.splits)
qed

lemma schedule_days_snoc:
  "schedule_days info (xs @ [d]) st =
     (dict_set (day_name info d)
        (fst (daily_sessions (topics info) (daily_hours info) (snd (schedule_days info xs st))))
        (fst (schedule_days info xs st)),
      snd (daily_sessions (topics info) (daily_hours info) (snd (schedule_days info xs st))))"
  by (cases "schedule_days info xs st")
     (simp add: schedule_days_append Let_def split: prod.splits)

lemma mod7_cancel_int: "((w::int) + d) mod 7 = (w + e) mod 7 \<longleftrightarrow> d mod 7 = e mod 7"
  by (simp add: mod_eq_dvd_iff)

lemma mod7_cancel: "((w::nat) + d) mod 7 = (w + e) mod 7 \<longleftrightarrow> d mod 7 = e mod 7"
proof -
  have "(w + d) mod 7 = (w + e) mod 7 \<longleftrightarrow> int ((w + d) mod 7) = int ((w + e) mod 7)"
    by simp
  also have "\<dots> \<longleftrightarrow> (int w + int d) mod 7 = (int w + int e) mod 7"
    by (simp add: zmod_int)
  also have "\<dots> \<longleftrightarrow> int d mod 7 = int e mod 7"
    by (rule mod7_cancel_int)
  also have "\<dots> \<longleftrightarrow> int (d mod 7) = int (e mod 7)"
    by (simp add: zmod_int)
  finally show ?thesis by simp
qed

lemma same_mod_ge7: "(d::nat) < n \<Longrightarrow> d mod 7 = n mod 7 \<Longrightarrow> 7 \<le> n"
  by (rule ccontr) simp

lemma sub7_mod: "7 \<le> (n::nat) \<Longrightarrow> (n - 7) mod 7 = n mod 7"
  by (simp add: le_mod_geq)

lemma same_mod_dvd: "(d::nat) \<le> n \<Longrightarrow> d mod 7 = n mod 7 \<Longrightarrow> 7 dvd n - d"
  by (metis mod_eq_dvd_iff_nat)

lemma same_mod_last: "(d::nat) \<le> n \<Longrightarrow> d mod 7 = n mod 7 \<Longrightarrow> d + 7 * ((n - d) div 7) = n"
  using same_mod_dvd[of d n] by simp

lemma other_mod_div:
  assumes "(d::nat) < n" and "d mod 7 \<noteq> n mod 7"
  shows "(n - d) div 7 = (n - 1 - d) div 7"
proof -
  obtain k where k: "n - d = Suc k" using assms(1) by (metis Suc_diff_Suc)
  have "\<not> 7 dvd n - d"
    using assms by (metis mod_eq_dvd_iff_nat less_imp_le)
  then have "Suc k mod 7 \<noteq> 0" using k by (simp add: dvd_eq_mod_eq_0)
  then have "Suc k div 7 = k div 7" by (simp add: div_Suc)
  moreover have "n - 1 - d = k" using k by simp
  ultimately show ?thesis using k by simp
qed

lemma weekday_add_nat: "weekday (add_days t (int d)) = (weekday t + d) mod 7"
proof -
  have "(int (weekday t) + int d) mod 7 = int ((weekday t + d) mod 7)"
    by (simp add: zmod_int)
  then show ?thesis by (simp add: weekday_add_days)
qed

lemma day_name_eq_iff: "day_name info d = day_name info e \<longleftrightarrow> d mod 7 = e mod 7"
  by (simp add: day_name_def strftime_A_eq_iff weekday_add_nat mod7_cancel)

lemma label_seen_iff: "day_name info n \<in> day_name info ` {0..<n} \<longleftrightarrow> 7 \<le> n"
proof
  assume "day_name info n \<in> day_name info ` {0..<n}"
  then obtain d where "d < n" "d mod 7 = n mod 7" by (auto simp: day_name_eq_iff)
  then show "7 \<le> n" by (rule same_mod_ge7)
next
  assume "7 \<le> n"
  then have "n - 7 < n" "(n - 7) mod 7 = n mod 7" by (simp_all add: sub7_mod)
  then show "day_name info n \<in> day_name info ` {0..<n}"
    by (metis atLeastLessThan_iff day_name_eq_iff imageI le0)
qed

lemma schedule_days_upto:
  "snd (schedule_days info [0..<n] ([], 0)) = (if daily_hours info \<ge> 4 then int n else 0) \<and>
   set (dict_keys (fst (schedule_days info [0..<n] ([], 0)))) = day_name info ` {0..<n} \<and>
   distinct (dict_keys (fst (schedule_days info [0..<n] ([], 0)))) \<and>
   length (fst (schedule_days info [0..<n] ([], 0))) = min n 7 \<and>
   (\<forall>d<n. dict_get (fst (schedule_days info [0..<n] ([], 0))) (day_name info d) =
      Some (sessions_of_day info (d + 7 * ((n - 1 - d) div 7))))"
proof (induction n)
  case 0
  then show ?case by (simp add: dict_keys_def)
next
  case (Suc n)
  let ?st = "schedule_days info [0..<n] ([], 0)"
  have ti: "snd ?st = (if daily_hours info \<ge> 4 then int n else 0)"
    and keys: "set (dict_keys (fst ?st)) = day_name info ` {0..<n}"
    and dist: "distinct (dict_keys (fst ?st))"
    and len: "length (fst ?st) = min n 7"
    and get: "\<forall>d<n. dict_get (fst ?st) (day_name info d) =
      Some (sessions_of_day info (d + 7 * ((n - 1 - d) div 7)))"
    using Suc.IH by blast+
  have step: "schedule_days info [0..<Suc n] ([], 0) =
      (dict_set (day_name info n) (sessions_of_day info n) (fst ?st),
       (if daily_hours info \<ge> 4 then int (Suc n) else 0))"
    by (simp add: schedule_days_snoc ti sessions_of_day_def snd_daily_sessions)
  have a: "snd (schedule_days info [0..<Suc n] ([], 0)) =
      (if daily_hours info \<ge> 4 then int (Suc n) else 0)"
    unfolding step by simp
  have b: "set (dict_keys (fst (schedule_days info [0..<Suc n] ([], 0)))) =
      day_name info ` {0..<Suc n}"
    unfolding step by (simp add: keys_dict_set keys atLeast0_lessThan_Suc)
  have c: "distinct (dict_keys (fst (schedule_days info [0..<Suc n] ([], 0))))"
    unfolding step by (simp add: distinct_dict_set dist)
  have d: "length (fst (schedule_days info [0..<Suc n] ([], 0))) = min (Suc n) 7"
    unfolding step by (simp add: length_dict_set keys label_seen_iff len)
  have e: "\<forall>d<Suc n. dict_get (fst (schedule_days info [0..<Suc n] ([], 0))) (day_name info d) =
      Some (sessions_of_day info (d + 7 * ((Suc n - 1 - d) div 7)))"
  proof (intro allI impI)
    fix d assume dn: "d < Suc n"
    show "dict_get (fst (schedule_days info [0..<Suc n] ([], 0))) (day_name info d) =
      Some (sessions_of_day info (d + 7 * ((Suc n - 1 - d) div 7)))"
    proof (cases "d mod 7 = n mod 7")
      case True
      with dn have "d + 7 * ((n - d) div 7) = n" by (simp add: same_mod_last)
      with True show ?thesis
        unfolding step by (simp add: dict_get_dict_set day_name_eq_iff)
    next
      case False
      with dn have lt: "d < n" by (cases "d = n") auto
      from False lt have "(n - d) div 7 = (n - 1 - d) div 7" by (simp add: other_mod_div)
      with False lt get show ?thesis
        unfolding step by (simp add: dict_get_dict_set day_name_eq_iff)
    qed
  qed
  from a b c d e show ?case by blast
qed

lemma days_available_range: "1 \<le> days_available info \<and> days_available info \<le> 14"
  by (simp add: days_available_def)

lemma last_same_weekday:
  fixes n d :: nat
  assumes "n \<le> 14" and "d < n"
  shows "d + 7 * ((n - 1 - d) div 7) = (if d + 7 < n then d + 7 else d)"
proof (cases "d + 7 < n")
  case True
  with assms have "(n - 1 - d) div 7 = 1" by simp
  with True show ?thesis by simp
next
  case False
  with assms have "(n - 1 - d) div 7 = 0" by simp
  with False show ?thesis by simp
qed

text \<open>
  C10.  For every request with a non-empty topic list, \<open>_create_study_schedule\<close> returns a
  plan with \<open>min days_available 7\<close> entries, hence at most 7, although \<open>days_available\<close>
  ranges over 1..14: the keys are weekday names, and the entry under the name of day \<open>d\<close>
  holds the sessions of day \<open>d + 7\<close> whenever that day is within \<open>days_available\<close>; the
  sessions built for day \<open>d\<close> itself were overwritten.
\<close>

theorem create_at_most_seven_days:
  assumes "topics info \<noteq> []"
  shows "\<exists>p. create_study_schedule info = Inr p \<and>
           length p = min (nat (days_available info)) 7 \<and> length p \<le> 7 \<and>
           (\<forall>d < nat (days_available info).
              dict_get p (day_name info d) =
                Some (sessions_of_day info
                        (if d + 7 < nat (days_available info) then d + 7 else d)))"
proof -
  let ?n = "nat (days_available info)"
  let ?p = "fst (schedule_days info [0..<?n] ([], 0))"
  have c: "create_study_schedule info = Inr ?p"
    using assms by (simp add: create_study_schedule_def)
  have n14: "?n \<le> 14" using days_available_range[of info] by linarith
  have "\<forall>d < ?n. dict_get ?p (day_name info d) =
                Some (sessions_of_day info (if d + 7 < ?n then d + 7 else d))"
  proof (intro allI impI)
    fix d assume d: "d < ?n"
    with n14 have "d + 7 * ((?n - 1 - d) div 7) = (if d + 7 < ?n then d + 7 else d)"
      by (rule last_same_weekday)
    with d schedule_days_upto[of info ?n] show "dict_get ?p (day_name info d) =
                Some (sessions_of_day info (if d + 7 < ?n then d + 7 else d))"
      by simp
  qed
  with c schedule_days_upto[of info ?n] show ?thesis by simp
qed

theorem create_at_most_seven_days_witness:
  "topics three_topics \<noteq> [] \<and>
   (\<exists>p. create_study_schedule three_topics = Inr p \<and> length p = 7 \<and>
        dict_get p ''Monday'' =
          Some [study_session ''09:00'' ''Physics'', study_session ''14:00'' ''Chemistry'']) \<and>
   sessions_of_day three_topics 0 =
     [study_session ''09:00'' ''Calculus'', study_session ''14:00'' ''Physics'']"
proof -
  have t: "topics three_topics \<noteq> []" by (simp add: three_topics_def)
  have n: "nat (days_available three_topics) = 8"
    by (simp add: three_topics_def days_available_def delta_days_def add_days_def us_per_day_def)
  have l: "day_name three_topics 0 = ''Monday''"
    using monday by (simp add: day_name_def three_topics_def add_days_def)
  have s7: "sessions_of_day three_topics 7 =
      [study_session ''09:00'' ''Physics'', study_session ''14:00'' ''Chemistry'']"
    by (simp add: sessions_of_day_def three_topics_def daily_sessions_def Let_def)
  have s0: "sessions_of_day three_topics 0 =
      [study_session ''09:00'' ''Calculus'', study_session ''14:00'' ''Physics'']"
    by (simp add: sessions_of_day_def three_topics_def daily_sessions_def Let_def)
  from create_at_most_seven_days[OF t] obtain p where
    p: "create_study_schedule three_topics = Inr p" "length p = min (nat (days_available three_topics)) 7"
       "\<forall>d < nat (days_available three_topics).
              dict_get p (day_name three_topics d) =
                Some (sessions_of_day three_topics
                        (if d + 7 < nat (days_available three_topics) then d + 7 else d))"
    by blast
  from p(3) have "dict_get p (day_name three_topics 0) = Some (sessions_of_day three_topics 7)"
    by (simp add: n)
  with p(1,2) t s0 show ?thesis by (simp add: n l s7)
qed

subsection \<open>\<open>generate_study_plan\<close> returns a result\<close>

lemma optimize_daily_typed:
  "\<exists>r. optimize_sessions (fst (daily_sessions tps hours ti)) = Inr r \<and>
       (\<forall>s \<in> set r. dict_get s ''session_type'' \<noteq> None)"
  by (simp add: daily_sessions_def Let_def optimize_study_session optimize_evening_Cons
      del: optimize_sessions.simps(2))
     (simp add: study_session_def evening_review_def break_session_def dict_get_def)

lemma optimized_plan_typed:
  assumes "topics info \<noteq> []"
  shows "\<exists>p. optimized_plan info = Inr p \<and>
           (\<forall>(d, ss) \<in> set p. \<forall>s \<in> set ss. dict_get s ''session_type'' \<noteq> None)"
proof -
  let ?p = "fst (schedule_days info [0..<nat (days_available info)] ([], 0))"
  have c: "create_study_schedule info = Inr ?p"
    using assms(1) by (simp add: create_study_schedule_def)
  have vals: "\<forall>(k, v) \<in> set ?p. \<exists>i. v = fst (daily_sessions (topics info) (daily_hours info) i)"
    by (rule schedule_days_values) simp
  have "\<forall>(k, v) \<in> set ?p. \<exists>r. optimize_sessions v = Inr r \<and>
          (\<forall>s \<in> set r. dict_get s ''session_type'' \<noteq> None)"
  proof
    fix kv assume m: "kv \<in> set ?p"
    obtain k v where kv: "kv = (k, v)" by (cases kv)
    from vals m kv obtain i where "v = fst (daily_sessions (topics info) (daily_hours info) i)"
      by auto
    then show "case kv of (k, v) \<Rightarrow> \<exists>r. optimize_sessions v = Inr r \<and>
          (\<forall>s \<in> set r. dict_get s ''session_type'' \<noteq> None)"
      using optimize_daily_typed[of "topics info" "daily_hours info" i] by (simp add: kv)
  qed
  from optimize_schedule_values[OF this] show ?thesis
    by (simp add: optimized_plan_def c)
qed

lemma count_study_typed:
  "\<forall>s \<in> set ss. dict_get s ''session_type'' \<noteq> None \<Longrightarrow> \<exists>n. count_study ss = Inr n"
  by (induction ss) auto

lemma summary_typed:
  assumes "\<forall>(d, ss) \<in> set p. \<forall>s \<in> set ss. dict_get s ''session_type'' \<noteq> None"
  shows "\<exists>sm. generate_plan_summary list_of_set p = Inr sm"
proof -
  have "\<forall>s \<in> set (concat (map snd p)). dict_get s ''session_type'' \<noteq> None"
    using assms by auto
  from count_study_typed[OF this] show ?thesis
    by (auto simp: generate_plan_summary_def Let_def)
qed

text \<open>
  C6.  Whatever \<open>_parse_study_request\<close> returns or raises, and in whatever order the sets
  of the run iterate, \<open>generate_study_plan\<close> raises nothing: it returns a result.  On an
  empty topic list the result has \<open>success = False\<close>, a message and no plan.  On a
  non-empty one the result has \<open>success = True\<close> and carries the plan and its summary.
\<close>

theorem generate_study_plan_never_raises:
  "(\<exists>r. generate_study_plan list_of_set parse user_input ctxt = Inr r) \<and>
   (parse user_input ctxt = Inr info \<and> topics info = [] \<longrightarrow>
      generate_study_plan list_of_set parse user_input ctxt =
        Inr \<lparr>success = False,
             message = ''Could not identify study topics. Please specify what you need to study.'',
             plan = None, summary = None\<rparr>) \<and>
   (parse user_input ctxt = Inr info \<and> topics info \<noteq> [] \<longrightarrow>
      (\<exists>p sm. optimized_plan info = Inr p \<and> generate_plan_summary list_of_set p = Inr sm \<and>
         generate_study_plan list_of_set parse user_input ctxt =
           Inr \<lparr>success = True,
                message = ''Generated '' @ str_nat (length p) @ '' day study plan'',
                plan = Some p, summary = Some sm\<rparr>))"
proof (intro conjI impI)
  show "\<exists>r. generate_study_plan list_of_set parse user_input ctxt = Inr r"
    by (cases "generate_body list_of_set parse user_input ctxt") (simp_all add: generate_study_plan_def)
next
  assume "parse user_input ctxt = Inr info \<and> topics info = []"
  then show "generate_study_plan list_of_set parse user_input ctxt =
        Inr \<lparr>success = False,
             message = ''Could not identify study topics. Please specify what you need to study.'',
             plan = None, summary = None\<rparr>"
    by (simp add: generate_study_plan_def generate_body_def)
next
  assume a: "parse user_input ctxt = Inr info \<and> topics info \<noteq> []"
  then obtain p where p: "optimized_plan info = Inr p"
    "\<forall>(d, ss) \<in> set p. \<forall>s \<in> set ss. dict_get s ''session_type'' \<noteq> None"
    using optimized_plan_typed[of info] by blast
  from summary_typed[OF p(2)] obtain sm where sm: "generate_plan_summary list_of_set p = Inr sm" by blast
  from a p(1) sm show "\<exists>p sm. optimized_plan info = Inr p \<and> generate_plan_summary list_of_set p = Inr sm \<and>
         generate_study_plan list_of_set parse user_input ctxt =
           Inr \<lparr>success = True,
                message = ''Generated '' @ str_nat (length p) @ '' day study plan'',
                plan = Some p, summary = Some sm\<rparr>"
    by (simp add: generate_study_plan_def generate_body_def)
qed

theorem generate_study_plan_never_raises_witness:
  "generate_study_plan remdups (\<lambda>u c. Inr (scenario jan_1_2024\<lparr>topics := []\<rparr>)) ''study'' () =
     Inr \<lparr>success = False,
          message = ''Could not identify study topics. Please specify what you need to study.'',
          plan = None, summary = None\<rparr> \<and>
   (\<exists>sm. generate_study_plan remdups (\<lambda>u c. Inr (scenario jan_1_2024)) ''study'' () =
     Inr \<lparr>success = True, message = ''Generated 2 day study plan'',
          plan = Some [(''Monday'',
                        [study_session ''09:00'' ''Calculus'', break_session (Str ''11:00''),
                         study_session ''14:00'' ''Physics'', break_session (Str ''16:00'')]),
                       (''Tuesday'',
                        [study_session ''09:00'' ''Physics'', break_session (Str ''11:00''),
                         study_session ''14:00'' ''Calculus'', break_session (Str ''16:00'')])],
          summary = Some sm\<rparr>)"
proof -
  let ?e = "scenario jan_1_2024\<lparr>topics := []\<rparr>"
  have "generate_study_plan remdups (\<lambda>u c. Inr ?e) ''study'' () =
     Inr \<lparr>success = False,
          message = ''Could not identify study topics. Please specify what you need to study.'',
          plan = None, summary = None\<rparr>"
    using generate_study_plan_never_raises[of remdups "\<lambda>u c. Inr ?e" "''study''" "()" ?e]
    by simp
  moreover have "\<exists>sm. generate_study_plan remdups (\<lambda>u c. Inr (scenario jan_1_2024)) ''study'' () =
     Inr \<lparr>success = True, message = ''Generated 2 day study plan'',
          plan = Some [(''Monday'',
                        [study_session ''09:00'' ''Calculus'', break_session (Str ''11:00''),
                         study_session ''14:00'' ''Physics'', break_session (Str ''16:00'')]),
                       (''Tuesday'',
                        [study_session ''09:00'' ''Physics'', break_session (Str ''11:00''),
                         study_session ''14:00'' ''Calculus'', break_session (Str ''16:00'')])],
          summary = Some sm\<rparr>"
  proof -
    have t: "topics (scenario jan_1_2024) \<noteq> []" by (simp add: scenario_def)
    have two: "str_nat (Suc (Suc 0)) = ''2''" by (simp add: str_nat.simps digit_char_def)
    from generate_study_plan_never_raises
           [of remdups "\<lambda>u c. Inr (scenario jan_1_2024)" "''study''" "()" "scenario jan_1_2024"] t
    show ?thesis
      by (auto simp: optimized_scenario monday tuesday two)
  qed
  ultimately show ?thesis by blast
qed

subsection \<open>The plan as a function of the request\<close>


























section \<open>Properties of the scheduler utilities\<close>

subsection \<open>Session length\<close>

lemma hour_09: "int_of_str ''09'' = Some 9"
  by (simp add: int_of_str_def is_blank_def unsigned_int_def is_digit_def digit_val_def)

text \<open>
  C9, as amended.  For every difficulty and time string the advisor returns an integer:
  the base is 45 for a difficulty above 0.7, 90 for one below 0.3 and 60 otherwise, the
  difficulty being compared with the doubles that these literals denote; when the text
  before the first colon does not convert to an integer the base is returned; for an hour
  in [6,12) the result is the base times 1.1 cut to an integer (49, 99, 66), for an hour
  in [18,22) the base times 0.9 cut to an integer (40, 81, 54), and for every other hour,
  [12,18) included, the base.
\<close>

theorem session_length_table:
  "calculate_optimal_session_length py_int d t =
     (case py_int (takeWhile (\<lambda>c. c \<noteq> CHR '':'') t) of
        None \<Rightarrow> (if d > double_0_7 then 45 else if d < double_0_3 then 90 else 60)
      | Some hour \<Rightarrow>
          if 6 \<le> hour \<and> hour < 12
          then (if d > double_0_7 then 49 else if d < double_0_3 then 99 else 66)
          else if 18 \<le> hour \<and> hour < 22
          then (if d > double_0_7 then 40 else if d < double_0_3 then 81 else 54)
          else (if d > double_0_7 then 45 else if d < double_0_3 then 90 else 60))"
  by (simp add: calculate_optimal_session_length_def Let_def split: option.splits)

text \<open>
  C9 as stated fails: at the difficulty 0.8 (the double that the literal denotes) and
  09:00 the result is 49, not 45 times 1.1.
\<close>

theorem session_length_counterexample:
  "calculate_optimal_session_length int_of_str (3602879701896397 / 2 ^ 52) ''09:00'' = 49 \<and>
   real_of_int (calculate_optimal_session_length int_of_str (3602879701896397 / 2 ^ 52) ''09:00'')
     \<noteq> 45 * 1.1"
  by (simp add: calculate_optimal_session_length_def Let_def hour_09 double_0_7_def)

subsection \<open>Cognitive load\<close>

lemma dict_sessions_simps [simp]:
  "dict_sessions [] = []"
  "dict_sessions (DictItem s # xs) = s # dict_sessions xs"
  "dict_sessions (TupleItem t h # xs) = dict_sessions xs"
  "dict_sessions (OtherItem # xs) = dict_sessions xs"
  by (simp_all add: dict_sessions_def List.map_filter_simps)






subsection \<open>Spaced repetition\<close>

lemma list_index_Some: "x \<in> set xs \<Longrightarrow> \<exists>i. list_index xs x = Some i \<and> i < length xs \<and> xs ! i = x"
  by (induction xs) auto

lemma list_index_nth: "distinct xs \<Longrightarrow> i < length xs \<Longrightarrow> list_index xs (xs ! i) = Some i"
proof (induction xs arbitrary: i)
  case Nil
  then show ?case by simp
next
  case (Cons a xs)
  then show ?case by (cases i) auto
qed

lemma keys_dict_append [simp]: "dict_keys (dict_append k x d) = dict_keys d"
  by (induction d) (auto simp: dict_keys_def dict_append_def)

lemma map_of_dict_append:
  "map_of (dict_append k x d) day =
     (if day = k then map_option (\<lambda>v. v @ [x]) (map_of d day) else map_of d day)"
  by (induction d) (auto simp: dict_append_def)

lemma sessions_on_dict_append:
  "sessions_on (dict_append k x d) day =
     (if day = k \<and> k \<in> set (dict_keys d) then sessions_on d day @ [x] else sessions_on d day)"
proof (cases "map_of d k")
  case None
  then have "k \<notin> set (dict_keys d)"
    by (simp add: dict_keys_def map_of_eq_None_iff)
  with None show ?thesis
    by (simp add: sessions_on_def dict_get_def map_of_dict_append)
next
  case (Some v)
  then have "k \<in> set (dict_keys d)"
    using map_of_eq_None_iff[of d k] by (simp add: dict_keys_def)
  with Some show ?thesis
    by (simp add: sessions_on_def dict_get_def map_of_dict_append)
qed

lemma keys_add_intervals [simp]: "dict_keys (add_intervals days t i ks sch) = dict_keys sch"
  by (induction ks arbitrary: sch) (simp_all add: Let_def)

lemma sessions_on_add_intervals:
  assumes "set days \<subseteq> set (dict_keys sch)"
  shows "sessions_on (add_intervals days t i ks sch) day =
           sessions_on sch day @ interval_reviews days t i ks day"
  using assms
proof (induction ks arbitrary: sch)
  case Nil
  then show ?case by (simp add: interval_reviews_def)
next
  case (Cons k ks)
  let ?sch' = "if i + k < length days
               then dict_append (days ! (i + k)) (DictItem (review_session t)) sch else sch"
  have keys: "set days \<subseteq> set (dict_keys ?sch')" using Cons.prems by simp
  have mem: "i + k < length days \<Longrightarrow> days ! (i + k) \<in> set (dict_keys sch)"
    using Cons.prems nth_mem[of "i + k" days] by blast
  have one: "sessions_on ?sch' day = sessions_on sch day @ interval_reviews days t i [k] day"
    using mem by (auto simp: sessions_on_dict_append interval_reviews_def)
  have "sessions_on (add_intervals days t i (k # ks) sch) day =
          sessions_on (add_intervals days t i ks ?sch') day"
    by (simp add: Let_def)
  also have "\<dots> = sessions_on ?sch' day @ interval_reviews days t i ks day"
    by (rule Cons.IH[OF keys])
  finally show ?case by (simp add: one interval_reviews_def)
qed

lemma add_reviews_result:
  assumes "set days \<subseteq> set (dict_keys sch)" and "snd ` set tfa \<subseteq> set days"
  shows "\<exists>res. add_reviews days tfa sch = Inr res \<and> dict_keys res = dict_keys sch \<and>
           (\<forall>day. sessions_on res day = sessions_on sch day @ reviews_added days tfa day)"
  using assms
proof (induction tfa arbitrary: sch)
  case Nil
  then show ?case by (simp add: reviews_added_def)
next
  case (Cons a tfa)
  obtain t fd where a: "a = (t, fd)" by (cases a)
  from Cons.prems(2) a have "fd \<in> set days" by simp
  then obtain i where i: "list_index days fd = Some i" using list_index_Some by fastforce
  let ?sch' = "add_intervals days t i [1, 3, 7] sch"
  have keys: "set days \<subseteq> set (dict_keys ?sch')"
    using Cons.prems(1) by (simp del: add_intervals.simps)
  have vals: "snd ` set tfa \<subseteq> set days" using Cons.prems(2) by simp
  from Cons.IH[OF keys vals] obtain res where
    res: "add_reviews days tfa ?sch' = Inr res" "dict_keys res = dict_keys ?sch'"
         "\<forall>day. sessions_on res day = sessions_on ?sch' day @ reviews_added days tfa day"
    by blast
  have "\<forall>day. sessions_on res day = sessions_on sch day @ reviews_added days (a # tfa) day"
    using res(3) sessions_on_add_intervals[OF Cons.prems(1), of t i "[1, 3, 7]"]
    by (simp add: reviews_added_def a i del: add_intervals.simps)
  with res(1,2) show ?case by (simp add: a i del: add_intervals.simps)
qed

lemma dict_get_record_topics:
  "dict_get (record_topics day xs tfa) t =
     (case dict_get tfa t of
        Some d \<Rightarrow> Some d
      | None \<Rightarrow> if Some t \<in> item_topic ` set xs then Some day else None)"
proof (induction xs arbitrary: tfa)
  case Nil
  then show ?case by (simp split: option.splits)
next
  case (Cons x xs)
  show ?case
  proof (cases "item_topic x")
    case None
    then show ?thesis using Cons.IH[of tfa] by (auto split: option.splits)
  next
    case (Some u)
    show ?thesis
    proof (cases "u \<in> set (dict_keys tfa)")
      case True
      then have "dict_get tfa u \<noteq> None"
        by (simp add: dict_get_def dict_keys_def map_of_eq_None_iff)
      with Some True show ?thesis using Cons.IH[of tfa] by (auto split: option.splits)
    next
      case False
      then have n: "dict_get tfa u = None"
        by (simp add: dict_get_def dict_keys_def map_of_eq_None_iff)
      have "dict_get (tfa @ [(u, day)]) t =
              (case dict_get tfa t of Some d \<Rightarrow> Some d | None \<Rightarrow> if t = u then Some day else None)"
        by (simp add: dict_get_def map_add_def split: option.splits)
      with Some False n show ?thesis using Cons.IH[of "tfa @ [(u, day)]"]
        by (auto split: option.splits)
    qed
  qed
qed

lemma values_record_topics: "snd ` set (record_topics day xs tfa) \<subseteq> insert day (snd ` set tfa)"
  by (induction xs arbitrary: tfa) (auto split: option.splits, force+)

lemma dict_get_first_appearances:
  "dict_get (first_appearances sch days tfa) t =
     (case dict_get tfa t of
        Some d \<Rightarrow> Some d
      | None \<Rightarrow> find (appears_on sch t) days)"
proof (induction days arbitrary: tfa)
  case Nil
  then show ?case by (simp split: option.splits)
next
  case (Cons d days)
  show ?case
    by (simp add: Cons.IH dict_get_record_topics appears_on_def[symmetric] split: option.splits)
qed

lemma values_first_appearances:
  "snd ` set (first_appearances sch days tfa) \<subseteq> set days \<union> snd ` set tfa"
proof (induction days arbitrary: tfa)
  case Nil
  then show ?case by simp
next
  case (Cons d days)
  show ?case
    using Cons.IH[of "record_topics d (sessions_on sch d) tfa"]
      values_record_topics[of d "sessions_on sch d" tfa]
    by auto
qed

lemma distinct_record_topics:
  "distinct (dict_keys tfa) \<Longrightarrow> distinct (dict_keys (record_topics day xs tfa))"
  by (induction xs arbitrary: tfa) (auto simp: dict_keys_def split: option.splits)

lemma distinct_first_appearances:
  "distinct (dict_keys tfa) \<Longrightarrow> distinct (dict_keys (first_appearances sch days tfa))"
  by (induction days arbitrary: tfa) (simp_all add: distinct_record_topics)

lemma interval_reviews_mem:
  "x \<in> set (interval_reviews days t i ks day) \<Longrightarrow>
     \<exists>k \<in> set ks. i + k < length days \<and> days ! (i + k) = day \<and> x = DictItem (review_session t)"
  by (auto simp: interval_reviews_def split: if_splits)

lemma reviews_added_mem:
  assumes "x \<in> set (reviews_added days tfa day)"
  shows "\<exists>t fd i k. (t, fd) \<in> set tfa \<and> list_index days fd = Some i \<and> k \<in> {1, 3, 7} \<and>
           i + k < length days \<and> days ! (i + k) = day \<and> x = DictItem (review_session t)"
proof -
  from assms obtain t fd where m: "(t, fd) \<in> set tfa"
    and x: "x \<in> set (case list_index days fd of None \<Rightarrow> []
                      | Some i \<Rightarrow> interval_reviews days t i [1, 3, 7] day)"
    by (auto simp: reviews_added_def)
  from x obtain i where i: "list_index days fd = Some i"
    and xi: "x \<in> set (interval_reviews days t i [1, 3, 7] day)"
    by (cases "list_index days fd") auto
  from interval_reviews_mem[OF xi] obtain k where ks: "k \<in> set [1, 3, 7]"
    and "i + k < length days" "days ! (i + k) = day" "x = DictItem (review_session t)"
    by blast
  moreover from ks have "k \<in> {1, 3, 7}" by simp
  ultimately have "k \<in> {1, 3, 7}" "i + k < length days" "days ! (i + k) = day"
    "x = DictItem (review_session t)"
    by blast+
  with m i show ?thesis by blast
qed

lemma sort_four: "sort (dict_keys four_days) = [''Day 1'', ''Day 2'', ''Day 3'', ''Day 4'']"
  by (simp add: four_days_def dict_keys_def less_eq_char_def less_char_def)

lemma four_days_reviews:
  "apply_spaced_repetition four_days [''Calculus'', ''Physics''] =
     Inr [(''Day 1'', [TupleItem ''Calculus'' 2]),
          (''Day 2'', [TupleItem ''Physics'' 2, DictItem (review_session (Str ''Calculus''))]),
          (''Day 3'', [TupleItem ''Calculus'' 1, DictItem (review_session (Str ''Physics''))]),
          (''Day 4'', [DictItem (review_session (Str ''Calculus''))])]"
  unfolding apply_spaced_repetition_def Let_def sort_four
  by (simp add: four_days_def sessions_on_def dict_get_def item_topic_def dict_keys_def
      dict_append_def)

text \<open>
  Where the reviews go, counted in the sorted keys.  For every schedule (a dict, so its
  keys are distinct) \<open>apply_spaced_repetition\<close> raises nothing, keeps the days, and on every
  day keeps the sessions and appends reviews only.  Every review appended to a day is a
  review of a topic \<open>t\<close>, and the day's index in \<open>sorted(schedule.keys())\<close> is \<open>i + k\<close>, where
  \<open>i\<close> is the index of the first day, in that order, on which \<open>t\<close> appears, \<open>k\<close> is 1, 3
  or 7, and \<open>i + k\<close> is below the number of days.
\<close>

theorem reviews_at_offsets:
  assumes "distinct (dict_keys sch)"
  shows "\<exists>res. apply_spaced_repetition sch tps = Inr res \<and> dict_keys res = dict_keys sch \<and>
     (\<forall>day. \<exists>added. sessions_on res day = sessions_on sch day @ added \<and>
        (\<forall>x \<in> set added. \<exists>t fd i k.
            x = DictItem (review_session t) \<and>
            find (appears_on sch t) (sort (dict_keys sch)) = Some fd \<and>
            list_index (sort (dict_keys sch)) fd = Some i \<and>
            k \<in> {1, 3, 7} \<and> i + k < length (dict_keys sch) \<and>
            list_index (sort (dict_keys sch)) day = Some (i + k)))"
proof -
  let ?days = "sort (dict_keys sch)"
  let ?tfa = "first_appearances sch ?days []"
  have dd: "distinct ?days" using assms by simp
  have keys: "set ?days \<subseteq> set (dict_keys sch)" by simp
  have vals: "snd ` set ?tfa \<subseteq> set ?days"
    using values_first_appearances[of sch ?days "[]"] by simp
  have dt: "distinct (dict_keys ?tfa)"
    by (rule distinct_first_appearances) (simp add: dict_keys_def)
  from add_reviews_result[OF keys vals] obtain res where
    res: "add_reviews ?days ?tfa sch = Inr res" "dict_keys res = dict_keys sch"
         "\<forall>day. sessions_on res day = sessions_on sch day @ reviews_added ?days ?tfa day"
    by blast
  have "\<forall>x \<in> set (reviews_added ?days ?tfa day). \<exists>t fd i k.
            x = DictItem (review_session t) \<and>
            find (appears_on sch t) ?days = Some fd \<and>
            list_index ?days fd = Some i \<and>
            k \<in> {1, 3, 7} \<and> i + k < length (dict_keys sch) \<and>
            list_index ?days day = Some (i + k)" for day
  proof
    fix x assume "x \<in> set (reviews_added ?days ?tfa day)"
    from reviews_added_mem[OF this] obtain t fd i k where
      m: "(t, fd) \<in> set ?tfa" and i: "list_index ?days fd = Some i" and k: "k \<in> {1, 3, 7}"
      and lt: "i + k < length ?days" and d: "?days ! (i + k) = day"
      and x: "x = DictItem (review_session t)"
      by blast
    from m dt have "dict_get ?tfa t = Some fd"
      by (simp add: dict_get_def dict_keys_def)
    then have f: "find (appears_on sch t) ?days = Some fd"
      using dict_get_first_appearances[of sch ?days "[]" t] by (simp add: dict_get_def)
    from list_index_nth[OF dd lt] d have "list_index ?days day = Some (i + k)" by simp
    with x f i k lt show "\<exists>t fd i k.
            x = DictItem (review_session t) \<and>
            find (appears_on sch t) ?days = Some fd \<and>
            list_index ?days fd = Some i \<and>
            k \<in> {1, 3, 7} \<and> i + k < length (dict_keys sch) \<and>
            list_index ?days day = Some (i + k)"
      by (intro exI[of _ t] exI[of _ fd] exI[of _ i] exI[of _ k]) simp
  qed
  with res show ?thesis
    unfolding apply_spaced_repetition_def Let_def by blast
qed

theorem reviews_at_offsets_witness:
  "distinct (dict_keys four_days) \<and>
   (\<exists>res. apply_spaced_repetition four_days [''Calculus'', ''Physics''] = Inr res \<and>
      dict_keys res = dict_keys four_days \<and>
      res = [(''Day 1'', [TupleItem ''Calculus'' 2]),
             (''Day 2'', [TupleItem ''Physics'' 2, DictItem (review_session (Str ''Calculus''))]),
             (''Day 3'', [TupleItem ''Calculus'' 1, DictItem (review_session (Str ''Physics''))]),
             (''Day 4'', [DictItem (review_session (Str ''Calculus''))])])"
proof -
  have d: "distinct (dict_keys four_days)"
    by (simp add: four_days_def dict_keys_def)
  from reviews_at_offsets[OF d, of "[''Calculus'', ''Physics'']"] obtain res where
    "apply_spaced_repetition four_days [''Calculus'', ''Physics''] = Inr res"
    "dict_keys res = dict_keys four_days"
    by blast
  with d show ?thesis by (simp add: four_days_reviews)
qed

subsection \<open>Topic distribution\<close>

lemma keys_ensure_day: "set (dict_keys (ensure_day k sch)) = insert k (set (dict_keys sch))"
  by (auto simp: ensure_day_def dict_keys_def)

lemma distinct_ensure_day: "distinct (dict_keys sch) \<Longrightarrow> distinct (dict_keys (ensure_day k sch))"
  by (auto simp: ensure_day_def dict_keys_def)

lemma has_slot_ensure_day: "has_slot sch u \<Longrightarrow> has_slot (ensure_day k sch) u"
  unfolding has_slot_def ensure_day_def by (cases "k \<in> set (dict_keys sch)") simp_all

lemma has_slot_I: "(day, slots) \<in> set sch \<Longrightarrow> (t, a) \<in> set slots \<Longrightarrow> 1 \<le> a \<Longrightarrow> has_slot sch t"
  unfolding has_slot_def by blast

lemma has_slot_E:
  assumes "has_slot sch t"
  obtains day slots a where "(day, slots) \<in> set sch" "(t, a) \<in> set slots" "1 \<le> a"
  using assms unfolding has_slot_def by blast

lemma mem_dict_append:
  "(day, slots) \<in> set sch \<Longrightarrow>
     (day, if day = k then slots @ [x] else slots) \<in> set (dict_append k x sch)"
  by (induction sch) (auto simp: dict_append_def)

lemma has_slot_dict_append:
  assumes "has_slot sch u"
  shows "has_slot (dict_append k x sch) u"
proof -
  from assms obtain day slots a where m: "(day, slots) \<in> set sch" "(u, a) \<in> set slots" "1 \<le> a"
    by (rule has_slot_E)
  from mem_dict_append[OF m(1), of k x] m(2,3) show ?thesis
    by (cases "day = k") (auto intro: has_slot_I)
qed

lemma has_slot_new:
  assumes "k \<in> set (dict_keys sch)" and "1 \<le> a"
  shows "has_slot (dict_append k (t, a) sch) t"
proof -
  from assms(1) obtain v where "(k, v) \<in> set sch" by (auto simp: dict_keys_def)
  from mem_dict_append[OF this, of k "(t, a)"]
  have "(k, v @ [(t, a)]) \<in> set (dict_append k (t, a) sch)" by simp
  then show ?thesis using assms(2) by (auto intro: has_slot_I)
qed

lemma allocate_topic_done:
  "th \<le> 0 \<Longrightarrow> allocate_topic D h t (sch, cd, hr, th) = (sch, cd, hr)"
  by (simp add: allocate_topic.simps)

lemma allocate_topic_step:
  assumes "0 < th" and "0 < hr"
  shows "allocate_topic D h t (sch, cd, hr, th) =
     (let sch2 = dict_append (day_key cd) (t, min th hr) (ensure_day (day_key cd) sch)
      in if hr \<le> th then
           (if D \<le> cd + 1 then (sch2, cd + 1, h)
            else allocate_topic D h t (sch2, cd + 1, h, th - hr))
         else (sch2, cd, hr - th))"
  using assms
  by (subst allocate_topic.simps) (auto simp: Let_def min_def allocate_topic_done)

lemma allocate_topic_inv:
  assumes h: "1 \<le> h" and hr: "0 < hr" "hr \<le> h" and cd: "0 \<le> cd" "cd < D" and th: "0 \<le> th"
  shows "alloc_post D h t sch cd hr th (allocate_topic D h t (sch, cd, hr, th))"
  using hr cd th
proof (induction "nat th" arbitrary: sch cd hr th rule: less_induct)
  case less
  show ?case
  proof (cases "th = 0")
    case True
    with less.prems show ?thesis
      by (simp add: allocate_topic_done alloc_post_def)
  next
    case False
    with less.prems have pos: "0 < th" by simp
    let ?key = "day_key cd"
    let ?sch2 = "dict_append ?key (t, min th hr) (ensure_day ?key sch)"
    have key: "?key \<in> day_key ` {0..<D}" using less.prems by simp
    have k2: "set (dict_keys ?sch2) \<subseteq> set (dict_keys sch) \<union> day_key ` {0..<D}"
      using key by (simp add: keys_ensure_day)
    have d2: "distinct (dict_keys sch) \<longrightarrow> distinct (dict_keys ?sch2)"
      by (simp add: distinct_ensure_day)
    have m2: "\<forall>u. has_slot sch u \<longrightarrow> has_slot ?sch2 u"
      by (simp add: has_slot_ensure_day has_slot_dict_append)
    have "1 \<le> min th hr" using pos less.prems by simp
    then have t2: "has_slot ?sch2 t"
      by (intro has_slot_new) (simp_all add: keys_ensure_day)
    have step: "allocate_topic D h t (sch, cd, hr, th) =
       (if hr \<le> th then
          (if D \<le> cd + 1 then (?sch2, cd + 1, h)
           else allocate_topic D h t (?sch2, cd + 1, h, th - hr))
        else (?sch2, cd, hr - th))"
      using allocate_topic_step[OF pos less.prems(1), of D h t sch cd] by (simp add: Let_def)
    consider (rest) "th < hr" | (stop) "hr \<le> th" "D \<le> cd + 1" | (more) "hr \<le> th" "cd + 1 < D"
      by linarith
    then show ?thesis
    proof cases
      case rest
      then have "allocate_topic D h t (sch, cd, hr, th) = (?sch2, cd, hr - th)"
        by (simp add: step)
      moreover have "alloc_post D h t sch cd hr th (?sch2, cd, hr - th)"
        unfolding alloc_post_def using rest less.prems pos k2 d2 m2 t2
        by (simp add: used_hours_def)
      ultimately show ?thesis by simp
    next
      case stop
      then have r: "allocate_topic D h t (sch, cd, hr, th) = (?sch2, cd + 1, h)"
        by (simp add: step)
      from stop less.prems have D: "D = cd + 1" by simp
      have "used_hours h cd hr + th \<le> D * h \<longrightarrow> used_hours h (cd + 1) h = used_hours h cd hr + th"
        using stop by (simp add: used_hours_def D algebra_simps)
      then have "alloc_post D h t sch cd hr th (?sch2, cd + 1, h)"
        unfolding alloc_post_def using h k2 d2 m2 t2 by simp
      with r show ?thesis by simp
    next
      case more
      then have r: "allocate_topic D h t (sch, cd, hr, th) =
          allocate_topic D h t (?sch2, cd + 1, h, th - hr)"
        by (simp add: step)
      have lt: "nat (th - hr) < nat th" using more less.prems pos by simp
      have ih: "alloc_post D h t ?sch2 (cd + 1) h (th - hr)
                  (allocate_topic D h t (?sch2, cd + 1, h, th - hr))"
        using less.hyps[OF lt, of h "cd + 1" ?sch2] h more less.prems by simp
      obtain sch' cd' hr' where res: "allocate_topic D h t (?sch2, cd + 1, h, th - hr) = (sch', cd', hr')"
        by (cases "allocate_topic D h t (?sch2, cd + 1, h, th - hr)")
      from ih have p: "0 < hr'" "hr' \<le> h" "cd + 1 \<le> cd'"
        "used_hours h (cd + 1) h + (th - hr) \<le> D * h \<longrightarrow>
           used_hours h cd' hr' = used_hours h (cd + 1) h + (th - hr)"
        "set (dict_keys sch') \<subseteq> set (dict_keys ?sch2) \<union> day_key ` {0..<D}"
        "distinct (dict_keys ?sch2) \<longrightarrow> distinct (dict_keys sch')"
        "\<forall>u. has_slot ?sch2 u \<longrightarrow> has_slot sch' u"
        unfolding alloc_post_def res by simp_all
      have u: "used_hours h (cd + 1) h + (th - hr) = used_hours h cd hr + th"
        by (simp add: used_hours_def algebra_simps)
      have "alloc_post D h t sch cd hr th (sch', cd', hr')"
        unfolding alloc_post_def using p k2 d2 m2 t2 u by auto
      with r res show ?thesis by simp
    qed
  qed
qed

lemma used_at_limit:
  assumes "1 \<le> h" and "0 < hr" and "hr \<le> h" and "D \<le> cd"
  shows "D * h \<le> used_hours h cd hr"
proof -
  have "D * h \<le> cd * h" using assms(1,4) by (simp add: mult_right_mono)
  then show ?thesis using assms(2,3) unfolding used_hours_def by linarith
qed

lemma allocate_topics_inv:
  assumes "1 \<le> h" and "1 \<le> hpt" and "0 < hr" and "hr \<le> h" and "0 \<le> cd" and "cd < D"
  shows "set (dict_keys (allocate_topics D h hpt ts (sch, cd, hr)))
           \<subseteq> set (dict_keys sch) \<union> day_key ` {0..<D} \<and>
         (distinct (dict_keys sch) \<longrightarrow>
            distinct (dict_keys (allocate_topics D h hpt ts (sch, cd, hr)))) \<and>
         (\<forall>u. has_slot sch u \<longrightarrow> has_slot (allocate_topics D h hpt ts (sch, cd, hr)) u) \<and>
         (used_hours h cd hr + hpt * int (length ts) \<le> D * h \<longrightarrow>
            (\<forall>u \<in> set ts. has_slot (allocate_topics D h hpt ts (sch, cd, hr)) u))"
  using assms(3-6)
proof (induction ts arbitrary: sch cd hr)
  case Nil
  then show ?case by simp
next
  case (Cons t ts)
  obtain sch' cd' hr' where res: "allocate_topic D h hpt_topic (sch, cd, hr, hpt) = (sch', cd', hr')"
    if "hpt_topic = t" for hpt_topic
    by (cases "allocate_topic D h t (sch, cd, hr, hpt)") auto
  have r: "allocate_topic D h t (sch, cd, hr, hpt) = (sch', cd', hr')" by (rule res) simp
  have "alloc_post D h t sch cd hr hpt (allocate_topic D h t (sch, cd, hr, hpt))"
    using allocate_topic_inv[OF assms(1) Cons.prems, of hpt t sch] assms(2) by simp
  then have p: "0 < hr'" "hr' \<le> h" "cd \<le> cd'"
    "used_hours h cd hr + hpt \<le> D * h \<longrightarrow> used_hours h cd' hr' = used_hours h cd hr + hpt"
    "set (dict_keys sch') \<subseteq> set (dict_keys sch) \<union> day_key ` {0..<D}"
    "distinct (dict_keys sch) \<longrightarrow> distinct (dict_keys sch')"
    "\<forall>u. has_slot sch u \<longrightarrow> has_slot sch' u"
    "has_slot sch' t"
    unfolding alloc_post_def r using assms(2) by simp_all
  have len: "0 \<le> hpt * int (length ts)" using assms(2) by simp
  show ?case
  proof (cases "D \<le> cd'")
    case True
    then have e: "allocate_topics D h hpt (t # ts) (sch, cd, hr) = sch'"
      by (simp add: r)
    have "\<forall>u \<in> set (t # ts). has_slot sch' u"
      if cap: "used_hours h cd hr + hpt * int (length (t # ts)) \<le> D * h"
    proof -
      from cap have c: "used_hours h cd hr + hpt + hpt * int (length ts) \<le> D * h"
        by (simp add: algebra_simps)
      with len p(4) have "used_hours h cd' hr' = used_hours h cd hr + hpt" by simp
      moreover have "D * h \<le> used_hours h cd' hr'"
        by (rule used_at_limit[OF assms(1) p(1) p(2) True])
      ultimately have z: "hpt * int (length ts) \<le> 0" using c by simp
      have "ts = []"
      proof (rule ccontr)
        assume "ts \<noteq> []"
        then have "1 \<le> int (length ts)" by (cases ts) simp_all
        with assms(2) have "1 * 1 \<le> hpt * int (length ts)" by (intro mult_mono) simp_all
        with z show False by simp
      qed
      with p(8) show ?thesis by simp
    qed
    with p(5-7) show ?thesis unfolding e by blast
  next
    case False
    then have e: "allocate_topics D h hpt (t # ts) (sch, cd, hr) =
                  allocate_topics D h hpt ts (sch', cd', hr')"
      by (simp add: r)
    from False Cons.prems p(3) have c': "0 \<le> cd'" "cd' < D" by simp_all
    note ih = Cons.IH[OF p(1) p(2) c', of sch']
    have "\<forall>u \<in> set (t # ts). has_slot (allocate_topics D h hpt ts (sch', cd', hr')) u"
      if cap: "used_hours h cd hr + hpt * int (length (t # ts)) \<le> D * h"
    proof -
      from cap have c: "used_hours h cd hr + hpt + hpt * int (length ts) \<le> D * h"
        by (simp add: algebra_simps)
      with len p(4) have "used_hours h cd' hr' = used_hours h cd hr + hpt" by simp
      with c have "used_hours h cd' hr' + hpt * int (length ts) \<le> D * h" by simp
      with ih have "\<forall>u \<in> set ts. has_slot (allocate_topics D h hpt ts (sch', cd', hr')) u"
        by blast
      moreover from ih p(8) have "has_slot (allocate_topics D h hpt ts (sch', cd', hr')) t"
        by blast
      ultimately show ?thesis by simp
    qed
    moreover have "set (dict_keys (allocate_topics D h hpt ts (sch', cd', hr')))
           \<subseteq> set (dict_keys sch) \<union> day_key ` {0..<D}"
      using ih p(5) by blast
    moreover have "distinct (dict_keys sch) \<longrightarrow>
            distinct (dict_keys (allocate_topics D h hpt ts (sch', cd', hr')))"
      using ih p(6) by blast
    moreover have "\<forall>u. has_slot sch u \<longrightarrow> has_slot (allocate_topics D h hpt ts (sch', cd', hr')) u"
      using ih p(7) by blast
    ultimately show ?thesis unfolding e by blast
  qed
qed

lemma hours_per_topic_fits:
  fixes n total :: int
  assumes "1 \<le> n" and "n \<le> total"
  shows "1 \<le> max 1 (total div n)" and "max 1 (total div n) * n \<le> total"
proof -
  show "1 \<le> max 1 (total div n)" by simp
  have "total div n * n + total mod n = total" by (rule div_mult_mod_eq)
  moreover have "0 \<le> total mod n" using assms(1) by simp
  ultimately have "total div n * n \<le> total" by linarith
  with assms show "max 1 (total div n) * n \<le> total"
    by (simp add: max_def)
qed

lemma day_key_0: "day_key 0 = ''Day 1''"
  by (simp add: day_key_def str_nat.simps digit_char_def)

text \<open>
  C1, as amended.  For every non-empty topic list, \<open>available_days \<ge> 1\<close> and
  \<open>daily_hours > 0\<close>, \<open>optimize_topic_distribution\<close> raises nothing and returns a schedule
  of at most \<open>available_days\<close> days; when the topics are at most
  \<open>available_days * daily_hours\<close>, every topic has a slot of at least one hour in it.
\<close>

theorem distribute_within_capacity:
  assumes "tps \<noteq> []" and "1 \<le> D" and "0 < h"
  shows "\<exists>sch. optimize_topic_distribution tps D h = Inr sch \<and>
           int (length sch) \<le> D \<and>
           (int (length tps) \<le> D * h \<longrightarrow> (\<forall>t \<in> set tps. has_slot sch t))"
proof -
  let ?hpt = "max 1 ((D * h) div int (length tps))"
  let ?sch = "allocate_topics D h ?hpt tps ([], 0, h)"
  have e: "optimize_topic_distribution tps D h = Inr ?sch"
    using assms(1) by (simp add: optimize_topic_distribution_def)
  have h1: "1 \<le> h" using assms(3) by simp
  have inv: "set (dict_keys ?sch) \<subseteq> set (dict_keys ([] :: allocation)) \<union> day_key ` {0..<D} \<and>
         (distinct (dict_keys ([] :: allocation)) \<longrightarrow> distinct (dict_keys ?sch)) \<and>
         (\<forall>u. has_slot [] u \<longrightarrow> has_slot ?sch u) \<and>
         (used_hours h 0 h + ?hpt * int (length tps) \<le> D * h \<longrightarrow>
            (\<forall>u \<in> set tps. has_slot ?sch u))"
    by (rule allocate_topics_inv[OF h1]) (use assms(2,3) in simp_all)
  then have keys: "set (dict_keys ?sch) \<subseteq> day_key ` {0..<D}"
    and dist: "distinct (dict_keys ?sch)"
    by (simp_all add: dict_keys_def)
  have "length ?sch = length (dict_keys ?sch)"
    by (simp add: dict_keys_def)
  also have "\<dots> = card (set (dict_keys ?sch))"
    using dist by (rule distinct_card[symmetric])
  also have "\<dots> \<le> card (day_key ` {0..<D})"
    using keys by (intro card_mono) simp_all
  also have "\<dots> \<le> card {0..<D}"
    by (intro card_image_le) simp
  finally have len: "int (length ?sch) \<le> D" using assms(2) by simp
  have "\<forall>t \<in> set tps. has_slot ?sch t" if cap: "int (length tps) \<le> D * h"
  proof -
    have "1 \<le> int (length tps)" using assms(1) by (cases tps) simp_all
    from hours_per_topic_fits(2)[OF this cap]
    have "used_hours h 0 h + ?hpt * int (length tps) \<le> D * h"
      by (simp add: used_hours_def)
    with inv show ?thesis by blast
  qed
  with e len show ?thesis by blast
qed

theorem distribute_within_capacity_witness:
  "[''Calculus'', ''Physics'', ''History''] \<noteq> [] \<and> (1::int) \<le> 2 \<and> (0::int) < 2 \<and>
   int (length [''Calculus'', ''Physics'', ''History'']) \<le> 2 * 2 \<and>
   (\<exists>sch. optimize_topic_distribution [''Calculus'', ''Physics'', ''History''] 2 2 = Inr sch \<and>
      int (length sch) \<le> 2 \<and>
      has_slot sch ''Calculus'' \<and> has_slot sch ''Physics'' \<and> has_slot sch ''History'')"
  using distribute_within_capacity[of "[''Calculus'', ''Physics'', ''History'']" 2 2]
  by simp

text \<open>
  C1 as stated fails when the topics outnumber the hours: with two topics, one day and
  one hour the loop stops after the first topic, the schedule stays at one day and the
  second topic has no slot.
\<close>

theorem distribute_drops_topics_counterexample:
  "optimize_topic_distribution [''Calculus'', ''Physics''] 1 1 = Inr [(''Day 1'', [(''Calculus'', 1)])] \<and>
   \<not> has_slot [(''Day 1'', [(''Calculus'', 1)])] ''Physics''"
  by (simp add: optimize_topic_distribution_def allocate_topic_step day_key_0
      ensure_day_def dict_append_def dict_keys_def has_slot_def)

subsection \<open>Spaced repetition on a distributed schedule\<close>

lemma day_keys:
  "day_key 0 = ''Day 1''" "day_key 1 = ''Day 2''" "day_key 2 = ''Day 3''" "day_key 3 = ''Day 4''"
  "day_key 4 = ''Day 5''" "day_key 5 = ''Day 6''" "day_key 6 = ''Day 7''" "day_key 7 = ''Day 8''"
  "day_key 8 = ''Day 9''" "day_key 9 = ''Day 10''"
  by (simp_all add: day_key_def str_nat.simps digit_char_def)

lemma ten_alloc_is_distribution:
  "optimize_topic_distribution [''Calculus'', ''Physics''] 10 1 = Inr ten_alloc"
  by (simp add: optimize_topic_distribution_def allocate_topic_step allocate_topic_done day_keys
      ensure_day_def dict_append_def dict_keys_def ten_alloc_def)

lemma sort_ten:
  "sort (dict_keys (as_schedule ten_alloc)) =
     [''Day 1'', ''Day 10'', ''Day 2'', ''Day 3'', ''Day 4'', ''Day 5'', ''Day 6'', ''Day 7'',
      ''Day 8'', ''Day 9'']"
  by (simp add: ten_alloc_def as_schedule_def dict_keys_def less_eq_char_def less_char_def)

text \<open>
  C4, evaluated on the schedule that \<open>optimize_topic_distribution\<close> returns for Calculus
  and Physics, ten days and one hour a day: Calculus on \<open>Day 1\<close> to \<open>Day 5\<close>, Physics on
  \<open>Day 6\<close> to \<open>Day 10\<close>.  Sorted as strings the keys are \<open>Day 1\<close>, \<open>Day 10\<close>, \<open>Day 2\<close>, ...,
  \<open>Day 9\<close>.  So the first day recorded for Physics is \<open>Day 10\<close>, the reviews of Calculus
  (offsets 1, 3, 7) are appended to \<open>Day 10\<close>, \<open>Day 3\<close> and \<open>Day 7\<close>, and the reviews of
  Physics to \<open>Day 2\<close>, \<open>Day 4\<close> and \<open>Day 8\<close>: two of them before the first Physics session
  on \<open>Day 6\<close>.
\<close>

theorem reviews_on_ten_days:
  "optimize_topic_distribution [''Calculus'', ''Physics''] 10 1 = Inr ten_alloc \<and>
   apply_spaced_repetition (as_schedule ten_alloc) [''Calculus'', ''Physics''] =
     Inr [(''Day 1'', [TupleItem ''Calculus'' 1]),
          (''Day 2'', [TupleItem ''Calculus'' 1, DictItem (review_session (Str ''Physics''))]),
          (''Day 3'', [TupleItem ''Calculus'' 1, DictItem (review_session (Str ''Calculus''))]),
          (''Day 4'', [TupleItem ''Calculus'' 1, DictItem (review_session (Str ''Physics''))]),
          (''Day 5'', [TupleItem ''Calculus'' 1]),
          (''Day 6'', [TupleItem ''Physics'' 1]),
          (''Day 7'', [TupleItem ''Physics'' 1, DictItem (review_session (Str ''Calculus''))]),
          (''Day 8'', [TupleItem ''Physics'' 1, DictItem (review_session (Str ''Physics''))]),
          (''Day 9'', [TupleItem ''Physics'' 1]),
          (''Day 10'', [TupleItem ''Physics'' 1, DictItem (review_session (Str ''Calculus''))])]"
proof -
  have "apply_spaced_repetition (as_schedule ten_alloc) [''Calculus'', ''Physics''] =
     Inr [(''Day 1'', [TupleItem ''Calculus'' 1]),
          (''Day 2'', [TupleItem ''Calculus'' 1, DictItem (review_session (Str ''Physics''))]),
          (''Day 3'', [TupleItem ''Calculus'' 1, DictItem (review_session (Str ''Calculus''))]),
          (''Day 4'', [TupleItem ''Calculus'' 1, DictItem (review_session (Str ''Physics''))]),
          (''Day 5'', [TupleItem ''Calculus'' 1]),
          (''Day 6'', [TupleItem ''Physics'' 1]),
          (''Day 7'', [TupleItem ''Physics'' 1, DictItem (review_session (Str ''Calculus''))]),
          (''Day 8'', [TupleItem ''Physics'' 1, DictItem (review_session (Str ''Physics''))]),
          (''Day 9'', [TupleItem ''Physics'' 1]),
          (''Day 10'', [TupleItem ''Physics'' 1, DictItem (review_session (Str ''Calculus''))])]"
    unfolding apply_spaced_repetition_def Let_def sort_ten
    by (simp add: ten_alloc_def as_schedule_def sessions_on_def dict_get_def item_topic_def
        dict_keys_def dict_append_def)
  with ten_alloc_is_distribution show ?thesis by simp
qed

subsection \<open>Breaks between sessions\<close>

lemma well_placed_Cons:
  "\<not> is_break_item x \<Longrightarrow> breaks_well_placed ys \<Longrightarrow> breaks_well_placed (x # ys)"
  by (cases ys) simp_all

lemma well_placed_break_Cons:
  "ys \<noteq> [] \<Longrightarrow> \<not> is_break_item (hd ys) \<Longrightarrow> breaks_well_placed ys \<Longrightarrow>
     breaks_well_placed (b # ys)"
  by (cases ys) simp_all

lemma hd_add_breaks_day:
  "xs \<noteq> [] \<Longrightarrow> add_breaks_day bi xs \<noteq> [] \<and> hd (add_breaks_day bi xs) = hd xs"
  by (induction bi xs rule: add_breaks_day.induct) simp_all

lemma add_breaks_day_well_placed:
  "\<forall>x \<in> set xs. \<not> is_break_item x \<Longrightarrow> breaks_well_placed (add_breaks_day bi xs)"
proof (induction xs)
  case Nil
  then show ?case by simp
next
  case (Cons x rest)
  then have ih: "breaks_well_placed (add_breaks_day bi rest)"
    and nb: "\<not> is_break_item x" and r: "\<forall>y \<in> set rest. \<not> is_break_item y"
    by simp_all
  show ?case
  proof (cases x)
    case (DictItem s)
    show ?thesis
    proof (cases "rest = []")
      case True
      with nb DictItem show ?thesis by simp
    next
      case False
      from hd_add_breaks_day[OF False, of bi] r False
      have h: "add_breaks_day bi rest \<noteq> []" "\<not> is_break_item (hd (add_breaks_day bi rest))"
        by simp_all
      from h ih have "breaks_well_placed (b # add_breaks_day bi rest)" for b
        by (intro well_placed_break_Cons)
      with nb ih DictItem show ?thesis
        by (simp add: well_placed_Cons)
    qed
  next
    case (TupleItem t h)
    with nb ih show ?thesis by (simp add: well_placed_Cons)
  next
    case OtherItem
    with nb ih show ?thesis by (simp add: well_placed_Cons)
  qed
qed

text \<open>
  \<open>add_breaks\<close>, the scheduler's break insertion, on a schedule without Breaks: in every
  day of the result the last session is not a Break and no Break follows a Break.  (The
  planner's \<open>_optimize_schedule\<close> does not use it; see C3.)
\<close>

theorem add_breaks_well_placed:
  assumes "\<forall>(day, sessions) \<in> set sch. \<forall>x \<in> set sessions. \<not> is_break_item x"
  shows "\<forall>(day, sessions) \<in> set (add_breaks sch bi). breaks_well_placed sessions"
  using assms add_breaks_day_well_placed
  by (auto simp: add_breaks_def)

theorem add_breaks_well_placed_witness:
  "(\<forall>(day, sessions) \<in> set study_then_review. \<forall>x \<in> set sessions. \<not> is_break_item x) \<and>
   add_breaks study_then_review 120 =
     [(''Monday'',
       [DictItem (study_session ''09:00'' ''Calculus''),
        DictItem (break_session (Str ''11:00'')),
        TupleItem ''Physics'' 2,
        DictItem evening_review])] \<and>
   breaks_well_placed
       [DictItem (study_session ''09:00'' ''Calculus''),
        DictItem (break_session (Str ''11:00'')),
        TupleItem ''Physics'' 2,
        DictItem evening_review]"
proof -
  have a: "\<forall>(day, sessions) \<in> set study_then_review. \<forall>x \<in> set sessions. \<not> is_break_item x"
    by (simp add: study_then_review_def is_break_item_def)
  have e: "add_breaks study_then_review 120 =
     [(''Monday'',
       [DictItem (study_session ''09:00'' ''Calculus''),
        DictItem (break_session (Str ''11:00'')),
        TupleItem ''Physics'' 2,
        DictItem evening_review])]"
    using add_minutes_0900
    by (simp add: add_breaks_def study_then_review_def study_session_def evening_review_def
        dict_get_def)
  from add_breaks_well_placed[OF a, of 120] e a show ?thesis by simp
qed

section \<open>Properties of the stages in the order of the specification\<close>

subsection \<open>The daily cap\<close>

lemma distinct_schedule_days:
  "distinct (dict_keys sch) \<Longrightarrow> distinct (dict_keys (fst (schedule_days info days (sch, ti))))"
proof (induction days arbitrary: sch ti)
  case Nil
  then show ?case by simp
next
  case (Cons d days)
  obtain ss ti' where ds: "daily_sessions (topics info) (daily_hours info) ti = (ss, ti')"
    by (cases "daily_sessions (topics info) (daily_hours info) ti")
  from Cons.IH[OF distinct_dict_set[OF Cons.prems]] show ?case by (simp add: ds)
qed

lemma sessions_on_Cons:
  "sessions_on ((k, v) # d) day = (if day = k then v else sessions_on d day)"
  by (simp add: sessions_on_def dict_get_def)

lemma dict_by_days:
  assumes "distinct (dict_keys sch)" and "dict_keys res = dict_keys sch"
    and "\<forall>day \<in> set (dict_keys sch). sessions_on res day = sessions_on sch day @ f day"
  shows "res = map (\<lambda>(d, xs). (d, xs @ f d)) sch"
  using assms
proof (induction sch arbitrary: res)
  case Nil
  then show ?case by (simp add: dict_keys_def)
next
  case (Cons a sch)
  obtain d xs where a: "a = (d, xs)" by (cases a)
  from Cons.prems(2) a obtain ys res' where res: "res = (d, ys) # res'"
    and keys: "dict_keys res' = dict_keys sch"
    by (cases res) (auto simp: dict_keys_def)
  from Cons.prems(1) a have dist: "distinct (dict_keys sch)" and nd: "d \<notin> set (dict_keys sch)"
    by (simp_all add: dict_keys_def)
  from Cons.prems(3) a res have ys: "ys = xs @ f d"
    by (simp add: sessions_on_Cons dict_keys_def)
  have "\<forall>day \<in> set (dict_keys sch). sessions_on res' day = sessions_on sch day @ f day"
  proof
    fix day assume m: "day \<in> set (dict_keys sch)"
    with nd have ne: "day \<noteq> d" by auto
    from m have "day \<in> set (dict_keys (a # sch))" by (simp add: dict_keys_def)
    with Cons.prems(3) have "sessions_on res day = sessions_on (a # sch) day @ f day"
      by (rule bspec)
    with ne show "sessions_on res' day = sessions_on sch day @ f day"
      by (simp add: res a sessions_on_Cons)
  qed
  from Cons.IH[OF dist keys this] show ?case by (simp add: res a ys)
qed

lemma reviews_form:
  "\<forall>x \<in> set xs. \<exists>t. x = DictItem (review_session t) \<Longrightarrow>
     \<exists>ts. xs = map (\<lambda>t. DictItem (review_session t)) ts"
proof (induction xs)
  case Nil
  then show ?case by simp
next
  case (Cons x xs)
  then obtain t ts where "x = DictItem (review_session t)"
    "xs = map (\<lambda>t. DictItem (review_session t)) ts" by auto
  then have "x # xs = map (\<lambda>t. DictItem (review_session t)) (t # ts)" by simp
  then show ?case by (rule exI)
qed

lemma reviews_added_form:
  "\<exists>ts. reviews_added days tfa day = map (\<lambda>t. DictItem (review_session t)) ts"
proof (rule reviews_form, rule ballI)
  fix x assume "x \<in> set (reviews_added days tfa day)"
  from reviews_added_mem[OF this] show "\<exists>t. x = DictItem (review_session t)" by blast
qed

lemma spaced_repetition_appends:
  assumes "distinct (dict_keys sch)"
  shows "\<exists>g. apply_spaced_repetition sch tps =
           Inr (map (\<lambda>(d, xs). (d, xs @ map (\<lambda>t. DictItem (review_session t)) (g d))) sch)"
proof -
  let ?days = "sort (dict_keys sch)"
  let ?tfa = "first_appearances sch ?days []"
  have keys: "set ?days \<subseteq> set (dict_keys sch)" by simp
  have vals: "snd ` set ?tfa \<subseteq> set ?days"
    using values_first_appearances[of sch ?days "[]"] by simp
  from add_reviews_result[OF keys vals] obtain res where
    res: "add_reviews ?days ?tfa sch = Inr res" "dict_keys res = dict_keys sch"
         "\<forall>day. sessions_on res day = sessions_on sch day @ reviews_added ?days ?tfa day"
    by blast
  from reviews_added_form[of ?days ?tfa] obtain g where
    g: "\<forall>day. reviews_added ?days ?tfa day = map (\<lambda>t. DictItem (review_session t)) (g day)"
    by metis
  from res(3) g have "\<forall>day \<in> set (dict_keys sch).
      sessions_on res day = sessions_on sch day @ map (\<lambda>t. DictItem (review_session t)) (g day)"
    by simp
  from dict_by_days[OF assms res(2) this] res(1) show ?thesis
    unfolding apply_spaced_repetition_def Let_def by blast
qed

lemma item_sessions_dicts: "item_sessions (map DictItem ss) = Inr ss"
  by (induction ss) simp_all

lemma schedule_plan_dicts:
  "schedule_plan (map (\<lambda>(d, ss). (d, map DictItem (h d ss))) p) = Inr (map (\<lambda>(d, ss). (d, h d ss)) p)"
  by (induction p) (auto simp: item_sessions_dicts)

lemma optimize_reviews:
  "optimize_sessions (map review_session ts) = Inr (map review_session ts)"
  by (induction ts) (simp_all add: review_session_def dict_get_def)

lemma optimize_append:
  "optimize_sessions (a @ b) =
     (case optimize_sessions a of
        Inl e \<Rightarrow> Inl e
      | Inr ra \<Rightarrow> (case optimize_sessions b of Inl e \<Rightarrow> Inl e | Inr rb \<Rightarrow> Inr (ra @ rb)))"
  by (induction a) (auto split: option.splits sum.splits)

lemma added_review [simp]: "is_added_review (review_session t)"
  by (simp add: is_added_review_def session_topic_def review_session_def dict_get_def)

lemma not_break_review [simp]: "\<not> is_break (review_session t)"
  by (simp add: is_break_def review_session_def dict_get_def)

lemma minutes_review [simp]: "duration_minutes (review_session t) = 30"
  by (simp add: duration_minutes_def review_session_def dict_get_def)

lemma not_added_study [simp]: "\<not> is_added_review (study_session t tp)"
  by (simp add: is_added_review_def study_session_def review_session_def)

lemma not_added_evening [simp]: "\<not> is_added_review evening_review"
  by (simp add: is_added_review_def evening_review_def review_session_def)

lemma not_added_break [simp]: "\<not> is_added_review (break_session t)"
  by (simp add: is_added_review_def break_session_def review_session_def)

lemma reviews_account:
  "filter from_allocation (map review_session ts) = [] \<and>
   filter is_break (map review_session ts) = [] \<and>
   filter is_added_review (map review_session ts) = map review_session ts \<and>
   day_minutes (map review_session ts) = 30 * length ts"
  by (induction ts) (simp_all add: from_allocation_def day_minutes_def)

lemma pipeline_day:
  assumes "0 \<le> hours"
  shows "\<exists>r. optimize_sessions (fst (daily_sessions tps hours ti) @ map review_session ts) = Inr r \<and>
           filter from_allocation r = fst (daily_sessions tps hours ti) \<and>
           int (day_minutes (fst (daily_sessions tps hours ti))) \<le> hours * 60 \<and>
           allocation_within_cap hours r"
  using assms reviews_account[of ts]
  by (simp add: optimize_append optimize_reviews daily_sessions_def Let_def optimize_study_session
      optimize_evening_Cons allocation_within_cap_def day_minutes_def from_allocation_def
      del: optimize_sessions.simps(2))

lemma pipeline_days:
  assumes "\<forall>(k, v) \<in> set p. \<exists>i. v = fst (daily_sessions tps hours i)" and "0 \<le> hours"
  shows "\<exists>r. optimize_schedule (map (\<lambda>(d, ss). (d, ss @ map review_session (g d))) p) = Inr r \<and>
           map (\<lambda>(d, ss). (d, filter from_allocation ss)) r = p \<and>
           (\<forall>(d, ss) \<in> set p. int (day_minutes ss) \<le> hours * 60) \<and>
           (\<forall>(d, ss) \<in> set r. allocation_within_cap hours ss)"
  using assms(1)
proof (induction p)
  case Nil
  then show ?case by simp
next
  case (Cons a p)
  obtain d ss where a: "a = (d, ss)" by (cases a)
  from Cons.prems a obtain i where i: "ss = fst (daily_sessions tps hours i)" by auto
  from pipeline_day[OF assms(2), of tps i "g d"] i obtain r1 where
    r1: "optimize_sessions (ss @ map review_session (g d)) = Inr r1"
        "filter from_allocation r1 = ss" "int (day_minutes ss) \<le> hours * 60"
        "allocation_within_cap hours r1"
    by auto
  from Cons.prems have "\<forall>(k, v) \<in> set p. \<exists>i. v = fst (daily_sessions tps hours i)" by simp
  from Cons.IH[OF this] obtain r where
    r: "optimize_schedule (map (\<lambda>(d, ss). (d, ss @ map review_session (g d))) p) = Inr r"
       "map (\<lambda>(d, ss). (d, filter from_allocation ss)) r = p"
       "\<forall>(d, ss) \<in> set p. int (day_minutes ss) \<le> hours * 60"
       "\<forall>(d, ss) \<in> set r. allocation_within_cap hours ss"
    by blast
  show ?case
    by (simp add: a r1 r)
qed

text \<open>
  C2, as amended.  For every request with a non-empty topic list and \<open>daily_hours \<ge> 0\<close>
  the three stages raise nothing.  In every day of the schedule of \<open>_create_study_schedule\<close>
  the durations sum to at most \<open>daily_hours * 60\<close> minutes.  The later stages keep these
  sessions and add to them without a capacity check: in every day of the plan, with
  (\<open>pipeline_plan\<close>) or without (\<open>optimized_plan\<close>) the injection of reviews, the sessions
  that are neither Breaks nor injected reviews are those of the initial schedule, and the
  day lasts their minutes plus 30 for every injected review and 15 for every Break.
\<close>

theorem study_minutes_within_daily_hours:
  assumes "topics info \<noteq> []" and "0 \<le> daily_hours info"
  shows "\<exists>p q r. create_study_schedule info = Inr p \<and>
           (\<forall>(d, ss) \<in> set p. int (day_minutes ss) \<le> daily_hours info * 60) \<and>
           optimized_plan info = Inr q \<and>
           map (\<lambda>(d, ss). (d, filter from_allocation ss)) q = p \<and>
           (\<forall>(d, ss) \<in> set q. allocation_within_cap (daily_hours info) ss) \<and>
           pipeline_plan info = Inr r \<and>
           map (\<lambda>(d, ss). (d, filter from_allocation ss)) r = p \<and>
           (\<forall>(d, ss) \<in> set r. allocation_within_cap (daily_hours info) ss)"
proof -
  let ?p = "fst (schedule_days info [0..<nat (days_available info)] ([], 0))"
  have c: "create_study_schedule info = Inr ?p"
    using assms(1) by (simp add: create_study_schedule_def)
  have vals: "\<forall>(k, v) \<in> set ?p. \<exists>i. v = fst (daily_sessions (topics info) (daily_hours info) i)"
    by (rule schedule_days_values) simp
  have "distinct (dict_keys ?p)"
    by (rule distinct_schedule_days) (simp add: dict_keys_def)
  then have "distinct (dict_keys (plan_schedule ?p))"
    by (simp add: plan_schedule_def dict_keys_def case_prod_unfold comp_def)
  from spaced_repetition_appends[OF this, of "topics info"] obtain g where
    "apply_spaced_repetition (plan_schedule ?p) (topics info) =
       Inr (map (\<lambda>(d, xs). (d, xs @ map (\<lambda>t. DictItem (review_session t)) (g d)))
              (plan_schedule ?p))"
    by blast
  then have sr: "apply_spaced_repetition (plan_schedule ?p) (topics info) =
       Inr (map (\<lambda>(d, ss). (d, map DictItem (ss @ map review_session (g d)))) ?p)"
    by (simp add: plan_schedule_def case_prod_unfold comp_def)
  have sp: "schedule_plan (map (\<lambda>(d, ss). (d, map DictItem (ss @ map review_session (g d)))) ?p) =
              Inr (map (\<lambda>(d, ss). (d, ss @ map review_session (g d))) ?p)"
    by (rule schedule_plan_dicts[of "\<lambda>d ss. ss @ map review_session (g d)"])
  from pipeline_days[OF vals assms(2), of g] obtain r where
    r: "optimize_schedule (map (\<lambda>(d, ss). (d, ss @ map review_session (g d))) ?p) = Inr r"
       "map (\<lambda>(d, ss). (d, filter from_allocation ss)) r = ?p"
       "\<forall>(d, ss) \<in> set ?p. int (day_minutes ss) \<le> daily_hours info * 60"
       "\<forall>(d, ss) \<in> set r. allocation_within_cap (daily_hours info) ss"
    by blast
  from pipeline_days[OF vals assms(2), of "\<lambda>d. []"] obtain q where
    q: "optimize_schedule ?p = Inr q"
       "map (\<lambda>(d, ss). (d, filter from_allocation ss)) q = ?p"
       "\<forall>(d, ss) \<in> set q. allocation_within_cap (daily_hours info) ss"
    by (auto simp: case_prod_unfold)
  have "optimized_plan info = Inr q"
    by (simp add: optimized_plan_def c q(1))
  moreover have "pipeline_plan info = Inr r"
    by (simp only: pipeline_plan_def c sr sp r(1) sum.case)
  ultimately show ?thesis
    using c q(2,3) r(2,3,4) by blast
qed

lemma sort_two_days: "sort [''Monday'', ''Tuesday''] = [''Monday'', ''Tuesday'']"
  by (simp add: less_eq_char_def less_char_def)

lemma pipeline_scenario:
  "pipeline_plan (scenario jan_1_2024) =
     Inr [(''Monday'',
           [study_session ''09:00'' ''Calculus'', break_session (Str ''11:00''),
            study_session ''14:00'' ''Physics'', break_session (Str ''16:00'')]),
          (''Tuesday'',
           [study_session ''09:00'' ''Physics'', break_session (Str ''11:00''),
            study_session ''14:00'' ''Calculus'', break_session (Str ''16:00''),
            review_session (Str ''Calculus''), review_session (Str ''Physics'')])]"
proof -
  have rv: "optimize_sessions [review_session a, review_session b] =
              Inr [review_session a, review_session b]" for a b
    using optimize_reviews[of "[a, b]"] by simp
  have sr: "apply_spaced_repetition
          (plan_schedule
             [(''Monday'',
               [study_session ''09:00'' ''Calculus'', study_session ''14:00'' ''Physics'']),
              (''Tuesday'',
               [study_session ''09:00'' ''Physics'', study_session ''14:00'' ''Calculus''])])
          [''Calculus'', ''Physics''] =
        Inr [(''Monday'',
              [DictItem (study_session ''09:00'' ''Calculus''),
               DictItem (study_session ''14:00'' ''Physics'')]),
             (''Tuesday'',
              [DictItem (study_session ''09:00'' ''Physics''),
               DictItem (study_session ''14:00'' ''Calculus''),
               DictItem (review_session (Str ''Calculus'')),
               DictItem (review_session (Str ''Physics''))])]"
    unfolding apply_spaced_repetition_def Let_def plan_schedule_def
    by (simp add: dict_keys_def sort_two_days sessions_on_def dict_get_def item_topic_def
        dict_append_def study_session_def)
  show ?thesis
    unfolding pipeline_plan_def create_scenario monday tuesday sum.case
    by (simp add: scenario_def sr optimize_study_session rv add_minutes_0900 add_minutes_1400
        del: optimize_sessions.simps(2))
qed

theorem study_minutes_within_daily_hours_witness:
  "topics (scenario jan_1_2024) \<noteq> [] \<and> 0 \<le> daily_hours (scenario jan_1_2024) \<and>
   allocation_within_cap 4
     [study_session ''09:00'' ''Physics'', break_session (Str ''11:00''),
      study_session ''14:00'' ''Calculus'', break_session (Str ''16:00''),
      review_session (Str ''Calculus''), review_session (Str ''Physics'')] \<and>
   filter from_allocation
     [study_session ''09:00'' ''Physics'', break_session (Str ''11:00''),
      study_session ''14:00'' ''Calculus'', break_session (Str ''16:00''),
      review_session (Str ''Calculus''), review_session (Str ''Physics'')] =
     [study_session ''09:00'' ''Physics'', study_session ''14:00'' ''Calculus'']"
proof -
  let ?tue = "[study_session ''09:00'' ''Physics'', break_session (Str ''11:00''),
      study_session ''14:00'' ''Calculus'', break_session (Str ''16:00''),
      review_session (Str ''Calculus''), review_session (Str ''Physics'')]"
  have t: "topics (scenario jan_1_2024) \<noteq> []" and h: "0 \<le> daily_hours (scenario jan_1_2024)"
    by (simp_all add: scenario_def)
  from study_minutes_within_daily_hours[OF t h] obtain r where
    r: "pipeline_plan (scenario jan_1_2024) = Inr r"
       "\<forall>(d, ss) \<in> set r. allocation_within_cap (daily_hours (scenario jan_1_2024)) ss"
    by blast
  from r(1) have m: "(''Tuesday'', ?tue) \<in> set r"
    by (simp add: pipeline_scenario) auto
  with r(2) have "allocation_within_cap 4 ?tue"
    by (auto simp: scenario_hours)
  moreover have "filter from_allocation ?tue =
      [study_session ''09:00'' ''Physics'', study_session ''14:00'' ''Calculus'']"
    by (simp add: from_allocation_def)
  ultimately show ?thesis using t h by blast
qed

text \<open>
  C2 as stated fails: with four hours a day (240 minutes) the two days of the pipeline's
  plan for the example request last 270 and 330 minutes, and the second lasts 300 minutes
  without its Breaks.
\<close>

theorem daily_cap_counterexample:
  "(case pipeline_plan (scenario jan_1_2024) of
      Inl e \<Rightarrow> []
    | Inr p \<Rightarrow> map (\<lambda>(d, ss). (d, day_minutes ss, day_minutes (filter (\<lambda>s. \<not> is_break s) ss),
                                   int (day_minutes ss) \<le> daily_hours (scenario jan_1_2024) * 60)) p) =
   [(''Monday'', 270, 240, False), (''Tuesday'', 330, 300, False)]"
  by (simp add: pipeline_scenario day_minutes_def scenario_hours)


end
